theory Spec2Isabelle
  imports Main
begin

section \<open>JavaScript values\<close>

text \<open>
  Text is a \<^typ>\<open>string\<close>; a literal outside ASCII is the list of the bytes it has in the
  (UTF-8) source file. A value read from a JSON body is one of the JSON primitives; JSON
  numbers are modelled at the integers, which is what the like counters are.
\<close>

datatype jsval = JUndefined | JNull | JBool bool | JNum int | JStr string

text \<open>ToBoolean, as applied by \<^verbatim>\<open>!\<close>, \<^verbatim>\<open>||\<close>, \<^verbatim>\<open>&&\<close> and \<^verbatim>\<open>?:\<close>.\<close>

fun truthy :: "jsval \<Rightarrow> bool" where
  "truthy JUndefined = False"
| "truthy JNull = False"
| "truthy (JBool b) = b"
| "truthy (JNum n) = (n \<noteq> 0)"
| "truthy (JStr s) = (s \<noteq> [])"

function decimal :: "nat \<Rightarrow> string" where
  "decimal n = (if n < 10 then [''0123456789'' ! n]
                else decimal (n div 10) @ [''0123456789'' ! (n mod 10)])"
  by pat_completeness auto
termination
  by (relation "measure (\<lambda>n. n)") auto

declare decimal.simps [simp del]

text \<open>
  \<^verbatim>\<open>String(v)\<close>, which is also what a template literal and \<^verbatim>\<open>alert\<close> apply. Of a number it
  gives every digit, as \<^verbatim>\<open>String\<close> does of an integer that a double holds exactly and that is
  below \<open>10\<^sup>2\<^sup>1\<close>; beyond that the script prints an exponent or a rounded value, which this
  model does not.
\<close>

fun js_String :: "jsval \<Rightarrow> string" where
  "js_String JUndefined = ''undefined''"
| "js_String JNull = ''null''"
| "js_String (JBool b) = (if b then ''true'' else ''false'')"
| "js_String (JNum n) = (if n < 0 then ''-'' @ decimal (nat (- n)) else decimal (nat n))"
| "js_String (JStr s) = s"

text \<open>\<^verbatim>\<open>a || b\<close>.\<close>

definition js_or :: "jsval \<Rightarrow> jsval \<Rightarrow> jsval" where
  "js_or a b = (if truthy a then a else b)"

text \<open>
  The errors that arise here: reading a property of \<^verbatim>\<open>null\<close> or calling what is not a
  function, text that does not parse (a body that is not JSON, a selector), and a rejected
  \<^verbatim>\<open>fetch\<close>.
\<close>

datatype js_error = TypeError | SyntaxError | NetworkError

section \<open>The image modal (static/modal.js)\<close>

text \<open>
  The two elements the script holds, \<^verbatim>\<open>#imgModal\<close> and \<^verbatim>\<open>#modalImg\<close>, and the inline
  \<^verbatim>\<open>overflow\<close> style of the body.
\<close>

record modal_dom =
  modal_classes :: "string set"
  modal_aria_hidden :: "string option"
  modalImg_src :: string
  body_overflow :: string

text \<open>An \<^verbatim>\<open>img.post-image\<close>: its \<^verbatim>\<open>data-full\<close> attribute, when it has one, and its \<^verbatim>\<open>src\<close>.\<close>

record post_image =
  dataset_full :: "string option"
  img_src :: string

text \<open>
  A click, as the listener sees it: what \<^verbatim>\<open>e.target.closest("img.post-image")\<close> and
  \<^verbatim>\<open>e.target.closest("[data-close='1']")\<close> find.
\<close>

record modal_click =
  closest_post_image :: "post_image option"
  closest_data_close :: bool

definition openModal :: "string \<Rightarrow> modal_dom \<Rightarrow> modal_dom" where
  "openModal s m =
     (if s = [] then m
      else m\<lparr>modalImg_src := s,
             modal_classes := insert ''open'' (modal_classes m),
             modal_aria_hidden := Some ''false'',
             body_overflow := ''hidden''\<rparr>)"

definition closeModal :: "modal_dom \<Rightarrow> modal_dom" where
  "closeModal m =
     m\<lparr>modal_classes := modal_classes m - {''open''},
       modal_aria_hidden := Some ''true'',
       modalImg_src := [],
       body_overflow := []\<rparr>"

text \<open>\<^verbatim>\<open>img.dataset.full || img.src\<close>: an absent attribute is \<^verbatim>\<open>undefined\<close>, an empty one is falsy too.\<close>

definition full_or_src :: "post_image \<Rightarrow> string" where
  "full_or_src img =
     (case dataset_full img of
        None \<Rightarrow> img_src img
      | Some f \<Rightarrow> if f \<noteq> [] then f else img_src img)"

definition modal_on_click :: "modal_click \<Rightarrow> modal_dom \<Rightarrow> modal_dom" where
  "modal_on_click e m =
     (case closest_post_image e of
        Some img \<Rightarrow> openModal (full_or_src img) m
      | None \<Rightarrow> if closest_data_close e then closeModal m else m)"

definition modal_on_keydown :: "string \<Rightarrow> modal_dom \<Rightarrow> modal_dom" where
  "modal_on_keydown key m =
     (if key = ''Escape'' \<and> ''open'' \<in> modal_classes m then closeModal m else m)"

text \<open>The controller's initial state: the overlay closed, no image, the page scrolling.\<close>

definition closed_modal :: modal_dom where
  "closed_modal = \<lparr>modal_classes = {}, modal_aria_hidden = Some ''true'',
                    modalImg_src = [], body_overflow = []\<rparr>"

section \<open>The ranking loader (static/ranking.js)\<close>

definition heart_filled :: string where
  "heart_filled = [CHR 0xE2, CHR 0x9D, CHR 0xA4, CHR 0xEF, CHR 0xB8, CHR 0x8F]"

definition heart_outline :: string where
  "heart_outline = [CHR 0xF0, CHR 0x9F, CHR 0xA4, CHR 0x8D]"

definition newline :: string where
  "newline = [CHR 0x0A]"

definition dquote :: string where
  "dquote = [CHR 0x22]"

text \<open>
  One object of the array the \<^verbatim>\<open>/ranking\<close> endpoint returns; a field the object lacks
  reads as \<^const>\<open>JUndefined\<close>.
\<close>

record ranking_entry =
  item_username :: jsval
  item_car_name :: jsval
  item_likes :: jsval

text \<open>An \<^verbatim>\<open>li\<close> the loader creates: its class list, in order, and the markup assigned to it.\<close>

record li_element =
  li_classes :: "string list"
  li_innerHTML :: string

text \<open>The period selector's value and the children of \<^verbatim>\<open>#ranking-list\<close>.\<close>

record ranking_dom =
  period_value :: string
  ranking_list :: "li_element list"

text \<open>
  What the two \<^verbatim>\<open>await\<close>s give: \<^verbatim>\<open>fetch\<close> or \<^verbatim>\<open>res.json()\<close> rejects with an error, or the
  body parses to something without \<^verbatim>\<open>forEach\<close>, or it parses to an array of objects.
\<close>

datatype ranking_response = Rejected js_error | NotAnArray | Entries "ranking_entry list"

text \<open>The body of the \<^verbatim>\<open>forEach\<close> callback, up to \<^verbatim>\<open>appendChild\<close>.\<close>

definition rank_li :: "nat \<Rightarrow> ranking_entry \<Rightarrow> li_element" where
  "rank_li index item =
     \<lparr>li_classes = (if index = 0 then [''ranking-item'', ''rank-1''] else [''ranking-item'']),
      li_innerHTML =
        newline @ ''      <span class='' @ dquote @ ''rank-no'' @ dquote @ ''>''
          @ decimal (index + 1) @ ''</span>''
        @ newline @ ''      <span class='' @ dquote @ ''rank-name'' @ dquote @ ''>''
          @ js_String (item_username item) @ '' / '' @ js_String (item_car_name item) @ ''</span>''
        @ newline @ ''      <span class='' @ dquote @ ''rank-like'' @ dquote @ ''>''
          @ heart_filled @ '' '' @ js_String (item_likes item) @ ''</span>''
        @ newline @ ''    ''\<rparr>"

fun forEach_append :: "nat \<Rightarrow> ranking_entry list \<Rightarrow> li_element list \<Rightarrow> li_element list" where
  "forEach_append index [] lis = lis"
| "forEach_append index (item # rest) lis =
     forEach_append (Suc index) rest (lis @ [rank_li index item])"

text \<open>
  \<^verbatim>\<open>loadRanking\<close>, given the server as a function of the requested URL: the URL it requests,
  the error that escapes (nothing catches it), and the page afterwards.
\<close>

definition loadRanking ::
  "(string \<Rightarrow> ranking_response) \<Rightarrow> ranking_dom \<Rightarrow> string \<times> js_error option \<times> ranking_dom" where
  "loadRanking server d =
     (let period = period_value d;
          url = ''/ranking?period='' @ period
      in case server url of
           Rejected err \<Rightarrow> (url, Some err, d)
         | NotAnArray \<Rightarrow> (url, Some TypeError, d\<lparr>ranking_list := []\<rparr>)
         | Entries data \<Rightarrow> (url, None, d\<lparr>ranking_list := forEach_append 0 data []\<rparr>))"

text \<open>The scenario of the specification: two entries, the period \<^verbatim>\<open>week\<close>, one stale item.\<close>

definition example_entries :: "ranking_entry list" where
  "example_entries =
     [\<lparr>item_username = JStr ''a'', item_car_name = JStr ''X'', item_likes = JNum 10\<rparr>,
      \<lparr>item_username = JStr ''b'', item_car_name = JStr ''Y'', item_likes = JNum 5\<rparr>]"

definition example_server :: "string \<Rightarrow> ranking_response" where
  "example_server url = (if url = ''/ranking?period=week'' then Entries example_entries else Rejected NetworkError)"

definition example_ranking_dom :: ranking_dom where
  "example_ranking_dom =
     \<lparr>period_value = ''week'',
      ranking_list = [\<lparr>li_classes = [''ranking-item''], li_innerHTML = ''stale''\<rparr>]\<rparr>"

text \<open>A ranking whose first entry has a user name that is markup.\<close>

definition markup_entries :: "ranking_entry list" where
  "markup_entries =
     [\<lparr>item_username = JStr ''<img src=x onerror=alert(1)>'', item_car_name = JStr ''X'',
       item_likes = JNum 10\<rparr>]"

definition markup_server :: "string \<Rightarrow> ranking_response" where
  "markup_server url = Entries markup_entries"

section \<open>The page of the like scripts\<close>

text \<open>
  A like-triggering element, with what the three scripts read and write of it: its class
  list, the \<^verbatim>\<open>data-post-id\<close>, \<^verbatim>\<open>data-comment-id\<close>, \<^verbatim>\<open>data-liked\<close> and \<^verbatim>\<open>data-loading\<close>
  attributes, the \<^verbatim>\<open>disabled\<close> property, the \<^verbatim>\<open>aria-pressed\<close> attribute, and the text of its
  \<^verbatim>\<open>.like-icon\<close> and \<^verbatim>\<open>.like-count\<close> children (\<^const>\<open>None\<close> when \<^verbatim>\<open>querySelector\<close> finds no
  such child).
\<close>

record like_button =
  classList :: "string set"
  dataset_postId :: "string option"
  dataset_commentId :: "string option"
  dataset_liked :: "string option"
  dataset_loading :: "string option"
  disabled :: bool
  aria_pressed :: "string option"
  like_icon :: "string option"
  like_count :: "string option"

text \<open>
  The page: its like-triggering elements in document order, the notices \<^verbatim>\<open>alert\<close> has shown,
  \<^verbatim>\<open>location.href\<close>, and the errors that left an \<^verbatim>\<open>async\<close> handler uncaught.
\<close>

record page =
  buttons :: "like_button list"
  alerts :: "string list"
  href :: string
  uncaught :: "js_error list"

text \<open>
  The JSON object of a like response, \<^verbatim>\<open>{ ok, liked, likes, error }\<close>; a field the body
  lacks reads as \<^const>\<open>JUndefined\<close>. A body that is a JSON number, string or boolean reads
  like an object without any of the four.
\<close>

record payload =
  data_ok :: jsval
  data_liked :: jsval
  data_likes :: jsval
  data_error :: jsval

text \<open>
  What \<^verbatim>\<open>res.json()\<close> gives: it rejects (no body, or not JSON), or the body is the JSON
  \<^verbatim>\<open>null\<close>, or it is any other JSON value.
\<close>

datatype body = NoJson | JsonNull | Json payload

text \<open>What \<^verbatim>\<open>fetch\<close> gives: it rejects, or a response with a status and a body.\<close>

datatype fetch_result = FetchRejected | Response nat body

text \<open>\<^verbatim>\<open>res.ok\<close>: the status is in the range 200 to 299.\<close>

definition res_ok :: "nat \<Rightarrow> bool" where
  "res_ok status = (200 \<le> status \<and> status \<le> 299)"

text \<open>
  A handler suspended at its \<^verbatim>\<open>await\<close>: the element and the id its closure holds, and the URL
  it has requested.
\<close>

record pending =
  p_btn :: nat
  p_id :: string
  p_url :: string

text \<open>
  \<^verbatim>\<open>e.target.closest(sel)\<close> for a class selector, on a page whose like-triggering elements do
  not nest: the click landed inside at most one of them, \<open>target\<close>, and \<^verbatim>\<open>closest\<close> finds it
  when it has the class.
\<close>

definition closest :: "string \<Rightarrow> nat option \<Rightarrow> page \<Rightarrow> nat option" where
  "closest cls target pg =
     (case target of
        None \<Rightarrow> None
      | Some i \<Rightarrow> if i < length (buttons pg) \<and> cls \<in> classList (buttons pg ! i) then Some i else None)"

definition update_btn :: "nat \<Rightarrow> (like_button \<Rightarrow> like_button) \<Rightarrow> page \<Rightarrow> page" where
  "update_btn i f pg = pg\<lparr>buttons := (buttons pg)[i := f (buttons pg ! i)]\<rparr>"

definition alert :: "string \<Rightarrow> page \<Rightarrow> page" where
  "alert msg pg = pg\<lparr>alerts := alerts pg @ [msg]\<rparr>"

text \<open>\<^verbatim>\<open>classList.toggle(c, force)\<close>.\<close>

definition classList_toggle :: "string \<Rightarrow> bool \<Rightarrow> string set \<Rightarrow> string set" where
  "classList_toggle c force cs = (if force then insert c cs else cs - {c})"

text \<open>\<^verbatim>\<open>if (el) el.textContent = t\<close> for a child that \<^verbatim>\<open>querySelector\<close> may not have found.\<close>

definition set_text :: "string \<Rightarrow> string option \<Rightarrow> string option" where
  "set_text t el = (case el of None \<Rightarrow> None | Some _ \<Rightarrow> Some t)"

text \<open>The notice of a 401 (a request to log in).\<close>

definition msg_login :: string where
  "msg_login =
     [CHR 0xE3, CHR 0x83, CHR 0xAD, CHR 0xE3, CHR 0x82, CHR 0xB0, CHR 0xE3, CHR 0x82,
      CHR 0xA4, CHR 0xE3, CHR 0x83, CHR 0xB3, CHR 0xE3, CHR 0x81, CHR 0x97, CHR 0xE3,
      CHR 0x81, CHR 0xA6, CHR 0xE3, CHR 0x81, CHR 0xAD]"

text \<open>The notice of a response that is not ok (the like failed, API error).\<close>

definition msg_api_error :: string where
  "msg_api_error =
     [CHR 0xE3, CHR 0x81, CHR 0x84, CHR 0xE3, CHR 0x81, CHR 0x84, CHR 0xE3, CHR 0x81,
      CHR 0xAD, CHR 0xE5, CHR 0xA4, CHR 0xB1, CHR 0xE6, CHR 0x95, CHR 0x97, CHR 0xEF,
      CHR 0xBC, CHR 0x88, CHR 0x41, CHR 0x50, CHR 0x49, CHR 0xE3, CHR 0x82, CHR 0xA8,
      CHR 0xE3, CHR 0x83, CHR 0xA9, CHR 0xE3, CHR 0x83, CHR 0xBC, CHR 0xEF, CHR 0xBC,
      CHR 0x89]"

text \<open>The fallback notice of a payload whose \<^verbatim>\<open>ok\<close> is falsy (the like failed).\<close>

definition msg_failed :: string where
  "msg_failed =
     [CHR 0xE3, CHR 0x81, CHR 0x84, CHR 0xE3, CHR 0x81, CHR 0x84, CHR 0xE3, CHR 0x81,
      CHR 0xAD, CHR 0xE5, CHR 0xA4, CHR 0xB1, CHR 0xE6, CHR 0x95, CHR 0x97]"

text \<open>The notice of the \<^verbatim>\<open>catch\<close> block (communication error).\<close>

definition msg_network :: string where
  "msg_network =
     [CHR 0xE9, CHR 0x80, CHR 0x9A, CHR 0xE4, CHR 0xBF, CHR 0xA1, CHR 0xE3, CHR 0x82,
      CHR 0xA8, CHR 0xE3, CHR 0x83, CHR 0xA9, CHR 0xE3, CHR 0x83, CHR 0xBC]"

section \<open>The first like script (unnamed/part_000)\<close>

text \<open>
  The listener up to its \<^verbatim>\<open>await fetch\<close>: the page it leaves and, when it has issued the
  request, the suspended rest. The guard on \<^verbatim>\<open>data-loading\<close> stands before the \<^verbatim>\<open>try\<close>, so
  a return there does not pass through \<^verbatim>\<open>finally\<close>.
\<close>

definition on_click_000 :: "nat option \<Rightarrow> page \<Rightarrow> page \<times> pending option" where
  "on_click_000 target pg =
     (case closest ''js-like'' target pg of
        None \<Rightarrow> (pg, None)
      | Some i \<Rightarrow>
          (case dataset_postId (buttons pg ! i) of
             None \<Rightarrow> (pg, None)
           | Some postId \<Rightarrow>
               if postId = [] then (pg, None)
               else if dataset_loading (buttons pg ! i) = Some ''1'' then (pg, None)
               else (update_btn i (\<lambda>btn. btn\<lparr>dataset_loading := Some ''1'', disabled := True\<rparr>) pg,
                     Some \<lparr>p_btn = i, p_id = postId, p_url = ''/api/like/'' @ postId\<rparr>)))"

text \<open>Lines 40 to 51: the clicked element alone takes the new count, state and icon.\<close>

definition reflect_000 :: "jsval \<Rightarrow> jsval \<Rightarrow> like_button \<Rightarrow> like_button" where
  "reflect_000 liked likes btn =
     btn\<lparr>like_count := set_text (js_String likes) (like_count btn),
         dataset_liked := Some (if truthy liked then ''1'' else ''0''),
         classList := classList_toggle ''active'' (truthy liked) (classList btn),
         aria_pressed := Some (if truthy liked then ''true'' else ''false''),
         like_icon := set_text (if truthy liked then heart_filled else heart_outline) (like_icon btn)\<rparr>"

text \<open>
  The \<^verbatim>\<open>try\<close> block from the point where \<^verbatim>\<open>fetch\<close> settles: the error thrown, if any, and
  the page at that point. Reading \<^verbatim>\<open>data.ok\<close> of \<^verbatim>\<open>null\<close> throws a TypeError.
\<close>

definition try_000 :: "pending \<Rightarrow> fetch_result \<Rightarrow> page \<Rightarrow> js_error option \<times> page" where
  "try_000 p r pg =
     (case r of
        FetchRejected \<Rightarrow> (Some NetworkError, pg)
      | Response status b \<Rightarrow>
          if status = 401 then (None, alert msg_login pg)
          else if \<not> res_ok status then (None, alert msg_api_error pg)
          else (case b of
                  NoJson \<Rightarrow> (Some SyntaxError, pg)
                | JsonNull \<Rightarrow> (Some TypeError, pg)
                | Json data \<Rightarrow>
                    if \<not> truthy (data_ok data)
                    then (None, alert (js_String (js_or (data_error data) (JStr msg_failed))) pg)
                    else (None, update_btn (p_btn p)
                                  (reflect_000 (data_liked data) (data_likes data)) pg)))"

text \<open>The rest of the listener: \<^verbatim>\<open>try\<close>, then \<^verbatim>\<open>catch\<close> when it threw, then \<^verbatim>\<open>finally\<close>.\<close>

definition resume_000 :: "pending \<Rightarrow> fetch_result \<Rightarrow> page \<Rightarrow> page" where
  "resume_000 p r pg =
     (let (thrown, pg1) = try_000 p r pg;
          pg2 = (case thrown of None \<Rightarrow> pg1 | Some _ \<Rightarrow> alert msg_network pg1)
      in update_btn (p_btn p) (\<lambda>btn. btn\<lparr>dataset_loading := Some ''0'', disabled := False\<rparr>) pg2)"

section \<open>The posts and comments script (unnamed/part_001)\<close>

text \<open>What \<^verbatim>\<open>postJson\<close> returns: \<^verbatim>\<open>data\<close> is \<^verbatim>\<open>null\<close> (\<^const>\<open>None\<close>) or the parsed body.\<close>

record post_result =
  r_ok :: bool
  r_status :: nat
  r_data :: "payload option"

text \<open>
  \<^verbatim>\<open>postJson\<close>: a rejected \<^verbatim>\<open>fetch\<close> is not caught; a rejected \<^verbatim>\<open>res.json()\<close> is, and leaves
  \<^verbatim>\<open>data\<close> at \<^verbatim>\<open>null\<close>, which is also what a body \<^verbatim>\<open>null\<close> parses to.
\<close>

definition postJson :: "fetch_result \<Rightarrow> js_error + post_result" where
  "postJson r =
     (case r of
        FetchRejected \<Rightarrow> Inl NetworkError
      | Response status b \<Rightarrow>
          Inr \<lparr>r_ok = res_ok status, r_status = status,
               r_data = (case b of NoJson \<Rightarrow> None | JsonNull \<Rightarrow> None | Json data \<Rightarrow> Some data)\<rparr>)"

definition setLikeBtnState :: "jsval \<Rightarrow> jsval \<Rightarrow> like_button \<Rightarrow> like_button" where
  "setLikeBtnState liked likes btn =
     btn\<lparr>classList := classList_toggle ''active'' (truthy liked) (classList btn),
         dataset_liked := Some (if truthy liked then ''1'' else ''0''),
         aria_pressed := Some (if truthy liked then ''true'' else ''false''),
         like_icon := set_text (if truthy liked then heart_filled else heart_outline) (like_icon btn),
         like_count := (if likes \<noteq> JUndefined then set_text (js_String likes) (like_count btn)
                        else like_count btn)\<rparr>"

text \<open>\<^verbatim>\<open>handlePostLike\<close> up to its \<^verbatim>\<open>await\<close>; the guard on the class comes first here.\<close>

definition handlePostLike :: "nat \<Rightarrow> page \<Rightarrow> page \<times> pending option" where
  "handlePostLike i pg =
     (if ''is-loading'' \<in> classList (buttons pg ! i) then (pg, None)
      else (case dataset_postId (buttons pg ! i) of
              None \<Rightarrow> (pg, None)
            | Some postId \<Rightarrow>
                if postId = [] then (pg, None)
                else (update_btn i (\<lambda>btn. btn\<lparr>classList := insert ''is-loading'' (classList btn)\<rparr>) pg,
                      Some \<lparr>p_btn = i, p_id = postId, p_url = ''/api/like/'' @ postId\<rparr>)))"

text \<open>
  The \<^verbatim>\<open>try\<close> block of \<^verbatim>\<open>handlePostLike\<close> from the point where \<^verbatim>\<open>postJson\<close> settles. There is
  no \<^verbatim>\<open>catch\<close>: an error of \<^verbatim>\<open>postJson\<close> leaves the handler.
\<close>

definition try_001 :: "pending \<Rightarrow> fetch_result \<Rightarrow> page \<Rightarrow> js_error option \<times> page" where
  "try_001 p fr pg =
     (case postJson fr of
        Inl err \<Rightarrow> (Some err, pg)
      | Inr r \<Rightarrow>
          (case r_data r of
             None \<Rightarrow> (None, pg)
           | Some data \<Rightarrow>
               if \<not> r_ok r \<or> data_ok data \<noteq> JBool True
               then (if data_error data = JStr ''login_required''
                     then (None, pg\<lparr>href := ''/login''\<rparr>)
                     else (None, pg))
               else (None, update_btn (p_btn p)
                             (setLikeBtnState (data_liked data) (data_likes data)) pg)))"

definition handlePostLike_resume :: "pending \<Rightarrow> fetch_result \<Rightarrow> page \<Rightarrow> page" where
  "handlePostLike_resume p fr pg =
     (let (thrown, pg1) = try_001 p fr pg;
          pg2 = update_btn (p_btn p) (\<lambda>btn. btn\<lparr>classList := classList btn - {''is-loading''}\<rparr>) pg1
      in case thrown of None \<Rightarrow> pg2 | Some err \<Rightarrow> pg2\<lparr>uncaught := uncaught pg2 @ [err]\<rparr>)"

text \<open>\<^verbatim>\<open>handleCommentLike\<close> differs in the attribute it reads and in the URL.\<close>

definition handleCommentLike :: "nat \<Rightarrow> page \<Rightarrow> page \<times> pending option" where
  "handleCommentLike i pg =
     (if ''is-loading'' \<in> classList (buttons pg ! i) then (pg, None)
      else (case dataset_commentId (buttons pg ! i) of
              None \<Rightarrow> (pg, None)
            | Some commentId \<Rightarrow>
                if commentId = [] then (pg, None)
                else (update_btn i (\<lambda>btn. btn\<lparr>classList := insert ''is-loading'' (classList btn)\<rparr>) pg,
                      Some \<lparr>p_btn = i, p_id = commentId,
                            p_url = ''/api/comment_like/'' @ commentId\<rparr>)))"

text \<open>Lines 53 to 65 repeat lines 32 to 44 with \<^verbatim>\<open>commentId\<close> for \<^verbatim>\<open>postId\<close>.\<close>

definition handleCommentLike_resume :: "pending \<Rightarrow> fetch_result \<Rightarrow> page \<Rightarrow> page" where
  "handleCommentLike_resume = handlePostLike_resume"

definition on_click_001 :: "nat option \<Rightarrow> page \<Rightarrow> page \<times> pending option" where
  "on_click_001 target pg =
     (case closest ''js-like'' target pg of
        Some postBtn \<Rightarrow> handlePostLike postBtn pg
      | None \<Rightarrow>
          (case closest ''js-comment-like'' target pg of
             Some commentBtn \<Rightarrow> handleCommentLike commentBtn pg
           | None \<Rightarrow> (pg, None)))"

section \<open>The second like script (unnamed/part_002)\<close>

text \<open>
  The selector \<^verbatim>\<open>.js-like[data-post-id="${postId}"]\<close> is the quoted id as long as the id has
  no double quote, backslash or line break in it. For the other ids the interpolated text is
  another selector (a backslash starts a CSS escape, a quote ends the string) that may match
  other elements or none, or it does not parse. They are outside this model, which gives
  them all the SyntaxError of a selector that does not parse; what is proved of
  \<^verbatim>\<open>updateButtons\<close> is proved of the ids inside it.
\<close>

definition css_plain :: "string \<Rightarrow> bool" where
  "css_plain s = list_all (\<lambda>c. c \<notin> set [CHR 0x22, CHR 0x5C, CHR 0x0A, CHR 0x0C, CHR 0x0D]) s"

text \<open>The body of the \<^verbatim>\<open>forEach\<close> callback of \<^verbatim>\<open>updateButtons\<close>.\<close>

definition reflect_002 :: "jsval \<Rightarrow> jsval \<Rightarrow> like_button \<Rightarrow> like_button" where
  "reflect_002 liked likes btn =
     btn\<lparr>dataset_liked := Some (if truthy liked then ''1'' else ''0''),
         classList := classList_toggle ''active'' (truthy liked) (classList btn),
         aria_pressed := Some (if truthy liked then ''true'' else ''false''),
         like_icon := set_text (if truthy liked then heart_filled else heart_outline) (like_icon btn),
         like_count := set_text (js_String likes) (like_count btn)\<rparr>"

definition updateButtons :: "string \<Rightarrow> jsval \<Rightarrow> jsval \<Rightarrow> page \<Rightarrow> js_error option \<times> page" where
  "updateButtons postId liked likes pg =
     (if \<not> css_plain postId then (Some SyntaxError, pg)
      else (None,
            pg\<lparr>buttons :=
                 map (\<lambda>btn. if ''js-like'' \<in> classList btn \<and> dataset_postId btn = Some postId
                            then reflect_002 liked likes btn else btn)
                     (buttons pg)\<rparr>))"

text \<open>\<^verbatim>\<open>toggleLike\<close> up to its \<^verbatim>\<open>await fetch\<close>.\<close>

definition toggleLike :: "nat \<Rightarrow> page \<Rightarrow> page \<times> pending option" where
  "toggleLike i pg =
     (case dataset_postId (buttons pg ! i) of
        None \<Rightarrow> (pg, None)
      | Some postId \<Rightarrow>
          if postId = [] then (pg, None)
          else if dataset_loading (buttons pg ! i) = Some ''1'' then (pg, None)
          else (update_btn i (\<lambda>btn. btn\<lparr>dataset_loading := Some ''1'', disabled := True,
                                         classList := insert ''is-loading'' (classList btn)\<rparr>) pg,
                Some \<lparr>p_btn = i, p_id = postId, p_url = ''/api/like/'' @ postId\<rparr>))"

definition try_002 :: "pending \<Rightarrow> fetch_result \<Rightarrow> page \<Rightarrow> js_error option \<times> page" where
  "try_002 p r pg =
     (case r of
        FetchRejected \<Rightarrow> (Some NetworkError, pg)
      | Response status b \<Rightarrow>
          if status = 401 then (None, alert msg_login pg)
          else if \<not> res_ok status then (None, alert msg_api_error pg)
          else (case b of
                  NoJson \<Rightarrow> (Some SyntaxError, pg)
                | JsonNull \<Rightarrow> (Some TypeError, pg)
                | Json data \<Rightarrow>
                    if \<not> truthy (data_ok data)
                    then (None, alert (js_String (js_or (data_error data) (JStr msg_failed))) pg)
                    else updateButtons (p_id p) (data_liked data) (data_likes data) pg))"

definition toggleLike_resume :: "pending \<Rightarrow> fetch_result \<Rightarrow> page \<Rightarrow> page" where
  "toggleLike_resume p r pg =
     (let (thrown, pg1) = try_002 p r pg;
          pg2 = (case thrown of None \<Rightarrow> pg1 | Some _ \<Rightarrow> alert msg_network pg1)
      in update_btn (p_btn p) (\<lambda>btn. btn\<lparr>dataset_loading := Some ''0'', disabled := False,
                                         classList := classList btn - {''is-loading''}\<rparr>) pg2)"

definition on_click_002 :: "nat option \<Rightarrow> page \<Rightarrow> page \<times> pending option" where
  "on_click_002 target pg =
     (case closest ''js-like'' target pg of
        None \<Rightarrow> (pg, None)
      | Some btn \<Rightarrow> toggleLike btn pg)"

text \<open>
  The \<^verbatim>\<open>submit\<close> listener: \<open>form_btn\<close> is the element that
  \<^verbatim>\<open>e.target.closest(".like-form")\<close> followed by \<^verbatim>\<open>form.querySelector(".js-like")\<close> finds.
\<close>

definition on_submit_002 :: "nat option \<Rightarrow> page \<Rightarrow> page \<times> pending option" where
  "on_submit_002 form_btn pg =
     (case closest ''js-like'' form_btn pg of
        None \<Rightarrow> (pg, None)
      | Some btn \<Rightarrow> toggleLike btn pg)"

section \<open>Clicks and responses in time\<close>

text \<open>
  The scripts run on the event loop: a listener runs to its \<^verbatim>\<open>await\<close>, and its rest runs
  when the request settles, with any number of other events in between. A world is the
  page, the handlers suspended at their \<^verbatim>\<open>await\<close>, and the URLs requested so far.
\<close>

datatype variant = Part_000 | Part_001 | Part_002

datatype event = Click "nat option" | Submit "nat option" | Settle nat fetch_result

record world =
  page_of :: page
  outstanding :: "pending list"
  requests :: "string list"

definition listener :: "variant \<Rightarrow> event \<Rightarrow> page \<Rightarrow> page \<times> pending option" where
  "listener v e pg =
     (case (v, e) of
        (Part_000, Click target) \<Rightarrow> on_click_000 target pg
      | (Part_001, Click target) \<Rightarrow> on_click_001 target pg
      | (Part_002, Click target) \<Rightarrow> on_click_002 target pg
      | (Part_002, Submit form_btn) \<Rightarrow> on_submit_002 form_btn pg
      | _ \<Rightarrow> (pg, None))"

text \<open>The rest of a suspended handler; in part_001 both handlers have the same rest.\<close>

definition resume :: "variant \<Rightarrow> pending \<Rightarrow> fetch_result \<Rightarrow> page \<Rightarrow> page" where
  "resume v p r pg =
     (case v of
        Part_000 \<Rightarrow> resume_000 p r pg
      | Part_001 \<Rightarrow> handlePostLike_resume p r pg
      | Part_002 \<Rightarrow> toggleLike_resume p r pg)"

text \<open>
  One event. \<open>Settle k r\<close> is the \<open>k\<close>-th outstanding request settling with \<open>r\<close>; there is
  nothing to settle when there is no such request.
\<close>

definition step :: "variant \<Rightarrow> event \<Rightarrow> world \<Rightarrow> world" where
  "step v e w =
     (case e of
        Settle k r \<Rightarrow>
          if k < length (outstanding w)
          then w\<lparr>page_of := resume v (outstanding w ! k) r (page_of w),
                 outstanding := take k (outstanding w) @ drop (Suc k) (outstanding w)\<rparr>
          else w
      | _ \<Rightarrow>
          (case listener v e (page_of w) of
             (pg, None) \<Rightarrow> w\<lparr>page_of := pg\<rparr>
           | (pg, Some p) \<Rightarrow>
               w\<lparr>page_of := pg, outstanding := outstanding w @ [p],
                  requests := requests w @ [p_url p]\<rparr>))"

fun run :: "variant \<Rightarrow> event list \<Rightarrow> world \<Rightarrow> world" where
  "run v [] w = w"
| "run v (e # es) w = run v es (step v e w)"

text \<open>The in-flight flag of an element, as each script keeps it.\<close>

definition in_flight :: "variant \<Rightarrow> like_button \<Rightarrow> bool" where
  "in_flight v btn =
     (case v of
        Part_001 \<Rightarrow> ''is-loading'' \<in> classList btn
      | _ \<Rightarrow> dataset_loading btn = Some ''1'')"

text \<open>
  What an element shows of the like: the active class, the pressed state, the icon and the
  count, and the \<^verbatim>\<open>data-liked\<close> attribute that mirrors them.
\<close>

definition displayed ::
  "like_button \<Rightarrow> bool \<times> string option \<times> string option \<times> string option \<times> string option" where
  "displayed btn =
     (''active'' \<in> classList btn, aria_pressed btn, like_icon btn, like_count btn, dataset_liked btn)"

section \<open>An example page\<close>

text \<open>
  The scenario of the specification: a button of post 42, not liked, showing the count 3.
  The page shows it twice (a duplicated card), beside a button of post 7.
\<close>

definition example_button :: like_button where
  "example_button =
     \<lparr>classList = {''js-like''}, dataset_postId = Some ''42'', dataset_commentId = None,
      dataset_liked = Some ''0'', dataset_loading = None, disabled = False,
      aria_pressed = Some ''false'', like_icon = Some heart_outline, like_count = Some ''3''\<rparr>"

definition example_page :: page where
  "example_page =
     \<lparr>buttons = [example_button, example_button, example_button\<lparr>dataset_postId := Some ''7''\<rparr>],
      alerts = [], href = ''/'', uncaught = []\<rparr>"

definition example_pending :: pending where
  "example_pending = \<lparr>p_btn = 0, p_id = ''42'', p_url = ''/api/like/42''\<rparr>"

text \<open>The response \<^verbatim>\<open>{ok: true, liked: true, likes: 4}\<close> with status 200.\<close>

definition example_success :: fetch_result where
  "example_success =
     Response 200 (Json \<lparr>data_ok = JBool True, data_liked = JBool True, data_likes = JNum 4,
                         data_error = JUndefined\<rparr>)"

definition example_world :: world where
  "example_world = \<lparr>page_of = example_page, outstanding = [], requests = []\<rparr>"

text \<open>
  What a listener does to the element before it issues the request (part_000 lines 16 and
  17, part_001 lines 31 and 52, part_002 lines 26 to 28), in one place for the proofs.
\<close>

definition mark :: "variant \<Rightarrow> like_button \<Rightarrow> like_button" where
  "mark v btn =
     (case v of
        Part_000 \<Rightarrow> btn\<lparr>dataset_loading := Some ''1'', disabled := True\<rparr>
      | Part_001 \<Rightarrow> btn\<lparr>classList := insert ''is-loading'' (classList btn)\<rparr>
      | Part_002 \<Rightarrow> btn\<lparr>dataset_loading := Some ''1'', disabled := True,
                         classList := insert ''is-loading'' (classList btn)\<rparr>)"

text \<open>The in-flight flags of the page's elements, in document order.\<close>

definition flags :: "variant \<Rightarrow> page \<Rightarrow> bool list" where
  "flags v pg = map (in_flight v) (buttons pg)"

text \<open>
  The invariant of the flags: no element has two outstanding requests, every outstanding
  request belongs to an element of the page, and an element's flag is set exactly when one
  of the outstanding requests is its own.
\<close>

definition flag_invariant :: "variant \<Rightarrow> world \<Rightarrow> bool" where
  "flag_invariant v w \<longleftrightarrow>
     distinct (map p_btn (outstanding w))
     \<and> (\<forall>p \<in> set (outstanding w). p_btn p < length (buttons (page_of w)))
     \<and> (\<forall>i < length (buttons (page_of w)).
           flags v (page_of w) ! i \<longleftrightarrow> i \<in> p_btn ` set (outstanding w))"

section \<open>Event dispatch\<close>

text \<open>
  The scripts register their listeners on the document. The browser dispatches an event
  along the path from the document (position 0) through the ancestors to the target (the
  last position): first the capturing listeners of each position on the way down, then the
  bubbling ones on the way up, in the order of registration at each position. Before each
  position it stops when \<^verbatim>\<open>stopPropagation\<close> has been called; between two listeners of one
  position it stops when \<^verbatim>\<open>stopImmediatePropagation\<close> has been called. The window, above the
  document, is left out: the scripts register on the document, and the handlers in question
  sit on the elements below it.
\<close>

datatype etype = ClickE | SubmitE

text \<open>A listener of one of the scripts, or one of the surrounding page, known by a number.\<close>

datatype handler = Script variant | PageHandler nat

record registration =
  on_node :: nat
  on_type :: etype
  use_capture :: bool
  handler_of :: handler

record event_state =
  stop_propagation :: bool
  stop_immediate :: bool
  default_prevented :: bool
  invoked :: "registration list"

text \<open>
  The \<^verbatim>\<open>addEventListener\<close> calls: part_000 line 3 with line 59 (\<^verbatim>\<open>true\<close>), part_001 line 68
  with line 84 (no third argument), part_002 lines 63 to 77 and 80 to 96.
\<close>

definition registrations :: "variant \<Rightarrow> registration list" where
  "registrations v =
     (case v of
        Part_000 \<Rightarrow>
          [\<lparr>on_node = 0, on_type = ClickE, use_capture = True, handler_of = Script Part_000\<rparr>]
      | Part_001 \<Rightarrow>
          [\<lparr>on_node = 0, on_type = ClickE, use_capture = False, handler_of = Script Part_001\<rparr>]
      | Part_002 \<Rightarrow>
          [\<lparr>on_node = 0, on_type = ClickE, use_capture = True, handler_of = Script Part_002\<rparr>,
           \<lparr>on_node = 0, on_type = SubmitE, use_capture = True, handler_of = Script Part_002\<rparr>])"

text \<open>
  What a script's listener does to the event. \<open>inside\<close> says that the listener's lookup
  succeeds: for a click, \<^verbatim>\<open>e.target.closest\<close> finds a like-triggering element; for a
  submit, it finds the \<^verbatim>\<open>.like-form\<close> and a \<^verbatim>\<open>.js-like\<close> in it. The listeners of part_002 also
  call \<^verbatim>\<open>stopImmediatePropagation\<close>, which sets both stop flags.
\<close>

definition script_effect :: "variant \<Rightarrow> bool \<Rightarrow> event_state \<Rightarrow> event_state" where
  "script_effect v inside s =
     (if \<not> inside then s
      else (case v of
              Part_002 \<Rightarrow> s\<lparr>default_prevented := True, stop_propagation := True,
                             stop_immediate := True\<rparr>
            | _ \<Rightarrow> s\<lparr>default_prevented := True, stop_propagation := True\<rparr>))"

text \<open>Calling one listener; a listener of the page does nothing to the event here.\<close>

definition call :: "bool \<Rightarrow> registration \<Rightarrow> event_state \<Rightarrow> event_state" where
  "call inside l s =
     (case handler_of l of
        Script v \<Rightarrow> script_effect v inside (s\<lparr>invoked := invoked s @ [l]\<rparr>)
      | PageHandler n \<Rightarrow> s\<lparr>invoked := invoked s @ [l]\<rparr>)"

fun invoke_all :: "bool \<Rightarrow> registration list \<Rightarrow> event_state \<Rightarrow> event_state" where
  "invoke_all inside [] s = s"
| "invoke_all inside (l # ls) s =
     (if stop_immediate s then s else invoke_all inside ls (call inside l s))"

definition at_node :: "etype \<Rightarrow> bool \<Rightarrow> nat \<Rightarrow> registration list \<Rightarrow> registration list" where
  "at_node t c k regs = filter (\<lambda>l. on_node l = k \<and> on_type l = t \<and> use_capture l = c) regs"

fun walk :: "bool \<Rightarrow> etype \<Rightarrow> bool \<Rightarrow> nat list \<Rightarrow> registration list \<Rightarrow> event_state \<Rightarrow> event_state" where
  "walk inside t c [] regs s = s"
| "walk inside t c (k # ks) regs s =
     (if stop_propagation s then s
      else walk inside t c ks regs (invoke_all inside (at_node t c k regs) s))"

text \<open>
  Dispatching an event of type \<open>t\<close> to a target \<open>n\<close> steps below the document, with the
  listeners \<open>regs\<close> in their order of registration.
\<close>

definition dispatch :: "bool \<Rightarrow> etype \<Rightarrow> nat \<Rightarrow> registration list \<Rightarrow> event_state" where
  "dispatch inside t n regs =
     walk inside t False (rev [0..<Suc n]) regs
       (walk inside t True [0..<Suc n] regs
          \<lparr>stop_propagation = False, stop_immediate = False, default_prevented = False,
           invoked = []\<rparr>)"

text \<open>
  A card with its own click handler (\<^verbatim>\<open>onclick\<close>, a bubbling listener one step below the
  document) around a like button two steps below.
\<close>

definition card_onclick :: registration where
  "card_onclick = \<lparr>on_node = 1, on_type = ClickE, use_capture = False, handler_of = PageHandler 0\<rparr>"

section \<open>Properties of the image modal\<close>

text \<open>
  C7, as stated, at an image whose \<^verbatim>\<open>data-full\<close> attribute is present and empty: the modal
  opens, and its source is the image's \<^verbatim>\<open>src\<close>, not the attribute's value.
\<close>

theorem modal_open_empty_full_counterexample:
  "dataset_full \<lparr>dataset_full = Some [], img_src = ''/img/9.jpg''\<rparr> = Some []
   \<and> modalImg_src
        (modal_on_click
           \<lparr>closest_post_image = Some \<lparr>dataset_full = Some [], img_src = ''/img/9.jpg''\<rparr>,
            closest_data_close = False\<rparr>
           closed_modal) = ''/img/9.jpg''
   \<and> ''open'' \<in> modal_classes
        (modal_on_click
           \<lparr>closest_post_image = Some \<lparr>dataset_full = Some [], img_src = ''/img/9.jpg''\<rparr>,
            closest_data_close = False\<rparr>
           closed_modal)"
  by (simp add: modal_on_click_def full_or_src_def openModal_def closed_modal_def)

text \<open>
  C7, amended: a click on an image element, in particular while the modal is closed, opens
  the modal with the source taken from the full-resolution data attribute when that
  attribute is present and not empty, and from the element's displayed source otherwise; opening makes the overlay visible (class \<^verbatim>\<open>open\<close>),
  sets \<^verbatim>\<open>aria-hidden\<close> to \<^verbatim>\<open>"false"\<close> and suppresses page scroll (\<^verbatim>\<open>overflow: hidden\<close>). When
  neither gives a source, the click changes nothing.
\<close>

theorem modal_open_on_image_click:
  "closest_post_image e = Some img \<Longrightarrow>
   (\<forall>f. dataset_full img = Some f \<and> f \<noteq> [] \<longrightarrow>
      modalImg_src (modal_on_click e m) = f
      \<and> ''open'' \<in> modal_classes (modal_on_click e m)
      \<and> modal_aria_hidden (modal_on_click e m) = Some ''false''
      \<and> body_overflow (modal_on_click e m) = ''hidden'')
   \<and> ((dataset_full img = None \<or> dataset_full img = Some []) \<and> img_src img \<noteq> [] \<longrightarrow>
      modalImg_src (modal_on_click e m) = img_src img
      \<and> ''open'' \<in> modal_classes (modal_on_click e m)
      \<and> modal_aria_hidden (modal_on_click e m) = Some ''false''
      \<and> body_overflow (modal_on_click e m) = ''hidden'')
   \<and> ((dataset_full img = None \<or> dataset_full img = Some []) \<and> img_src img = [] \<longrightarrow>
      modal_on_click e m = m)"
  by (auto simp: modal_on_click_def full_or_src_def openModal_def)

theorem modal_open_on_image_click_witness:
  "modalImg_src
     (modal_on_click
        \<lparr>closest_post_image = Some \<lparr>dataset_full = Some ''/img/full/9.jpg'', img_src = ''/img/9.jpg''\<rparr>,
         closest_data_close = False\<rparr>
        closed_modal) = ''/img/full/9.jpg''
   \<and> modalImg_src
     (modal_on_click
        \<lparr>closest_post_image = Some \<lparr>dataset_full = None, img_src = ''/img/9.jpg''\<rparr>,
         closest_data_close = False\<rparr>
        closed_modal) = ''/img/9.jpg''
   \<and> modal_on_click
        \<lparr>closest_post_image = Some \<lparr>dataset_full = None, img_src = []\<rparr>,
         closest_data_close = False\<rparr>
        closed_modal = closed_modal"
  using
    modal_open_on_image_click
      [of "\<lparr>closest_post_image = Some \<lparr>dataset_full = Some ''/img/full/9.jpg'', img_src = ''/img/9.jpg''\<rparr>,
            closest_data_close = False\<rparr>"
          "\<lparr>dataset_full = Some ''/img/full/9.jpg'', img_src = ''/img/9.jpg''\<rparr>" closed_modal]
    modal_open_on_image_click
      [of "\<lparr>closest_post_image = Some \<lparr>dataset_full = None, img_src = ''/img/9.jpg''\<rparr>,
            closest_data_close = False\<rparr>"
          "\<lparr>dataset_full = None, img_src = ''/img/9.jpg''\<rparr>" closed_modal]
    modal_open_on_image_click
      [of "\<lparr>closest_post_image = Some \<lparr>dataset_full = None, img_src = []\<rparr>,
            closest_data_close = False\<rparr>"
          "\<lparr>dataset_full = None, img_src = []\<rparr>" closed_modal]
  by simp

text \<open>
  C8: a close of the modal, by a click that reaches the close branch (inside a
  \<^verbatim>\<open>[data-close='1']\<close> control) or by the Escape key while the overlay is open, hides the
  overlay, sets \<^verbatim>\<open>aria-hidden\<close> to \<^verbatim>\<open>"true"\<close>, clears the image source and restores page
  scroll; a key pressed while the overlay is closed changes nothing.
\<close>

theorem modal_close_effects:
  "(closest_post_image e = None \<and> closest_data_close e \<longrightarrow>
      ''open'' \<notin> modal_classes (modal_on_click e m)
      \<and> modal_aria_hidden (modal_on_click e m) = Some ''true''
      \<and> modalImg_src (modal_on_click e m) = []
      \<and> body_overflow (modal_on_click e m) = [])
   \<and> (''open'' \<in> modal_classes m \<longrightarrow>
      ''open'' \<notin> modal_classes (modal_on_keydown ''Escape'' m)
      \<and> modal_aria_hidden (modal_on_keydown ''Escape'' m) = Some ''true''
      \<and> modalImg_src (modal_on_keydown ''Escape'' m) = []
      \<and> body_overflow (modal_on_keydown ''Escape'' m) = [])
   \<and> (''open'' \<notin> modal_classes m \<longrightarrow> modal_on_keydown key m = m)"
  by (simp add: modal_on_click_def modal_on_keydown_def closeModal_def)

theorem modal_close_effects_witness:
  "modal_on_click \<lparr>closest_post_image = None, closest_data_close = True\<rparr>
     (openModal ''/img/full/9.jpg'' closed_modal) = closed_modal
   \<and> modal_on_keydown ''Escape'' (openModal ''/img/full/9.jpg'' closed_modal) = closed_modal
   \<and> modal_on_keydown ''Escape'' closed_modal = closed_modal"
  using
    modal_close_effects
      [of "\<lparr>closest_post_image = None, closest_data_close = True\<rparr>"
          "openModal ''/img/full/9.jpg'' closed_modal" "''Escape''"]
    modal_close_effects
      [of "\<lparr>closest_post_image = None, closest_data_close = True\<rparr>" closed_modal "''Escape''"]
  by (simp add: openModal_def closed_modal_def modal_on_click_def modal_on_keydown_def closeModal_def)

section \<open>Properties of the ranking loader\<close>

lemma length_forEach_append:
  "length (forEach_append k es lis) = length lis + length es"
  by (induction es arbitrary: k lis) auto

lemma forEach_append_old:
  "i < length lis \<Longrightarrow> forEach_append k es lis ! i = lis ! i"
  by (induction es arbitrary: k lis) (auto simp: nth_append)

lemma forEach_append_new:
  "i < length es \<Longrightarrow> forEach_append k es lis ! (length lis + i) = rank_li (k + i) (es ! i)"
proof (induction es arbitrary: k lis i)
  case Nil
  then show ?case by simp
next
  case (Cons e es)
  show ?case
  proof (cases i)
    case 0
    then show ?thesis by (simp add: forEach_append_old)
  next
    case (Suc j)
    with Cons.prems have "j < length es" by simp
    from Cons.IH [OF this, of "Suc k" "lis @ [rank_li k e]"] Suc
    show ?thesis by simp
  qed
qed

text \<open>
  What the loader assigns: it requests \<^verbatim>\<open>/ranking?period=\<close> followed by the selected period;
  when the response is an array, the list it leaves holds one item per entry, in response
  order and whatever was rendered before; the markup assigned to the item at position \<open>i\<close>
  is the template with the rank \<open>i + 1\<close>, \<^verbatim>\<open>String\<close> of the user name, of the car name and of the
  likes put in as they are; the item carries the class \<^verbatim>\<open>rank-1\<close> exactly when it is the
  first.
\<close>

lemma loadRanking_renders:
  "fst (loadRanking server d) = ''/ranking?period='' @ period_value d
   \<and> (server (''/ranking?period='' @ period_value d) = Entries es \<longrightarrow>
        fst (snd (loadRanking server d)) = None
        \<and> period_value (snd (snd (loadRanking server d))) = period_value d
        \<and> length (ranking_list (snd (snd (loadRanking server d)))) = length es
        \<and> (\<forall>i < length es.
              li_innerHTML (ranking_list (snd (snd (loadRanking server d))) ! i) =
                newline @ ''      <span class='' @ dquote @ ''rank-no'' @ dquote @ ''>''
                  @ decimal (i + 1) @ ''</span>''
                @ newline @ ''      <span class='' @ dquote @ ''rank-name'' @ dquote @ ''>''
                  @ js_String (item_username (es ! i)) @ '' / '' @ js_String (item_car_name (es ! i))
                  @ ''</span>''
                @ newline @ ''      <span class='' @ dquote @ ''rank-like'' @ dquote @ ''>''
                  @ heart_filled @ '' '' @ js_String (item_likes (es ! i)) @ ''</span>''
                @ newline @ ''    ''
              \<and> ''ranking-item'' \<in> set (li_classes (ranking_list (snd (snd (loadRanking server d))) ! i))
              \<and> (''rank-1'' \<in> set (li_classes (ranking_list (snd (snd (loadRanking server d))) ! i))
                   \<longleftrightarrow> i = 0)))"
proof -
  have nth: "forEach_append 0 es [] ! i = rank_li i (es ! i)" if "i < length es" for i
    using forEach_append_new [OF that, of 0 "[]"] by simp
  show ?thesis
    by (auto simp: loadRanking_def Let_def length_forEach_append nth rank_li_def
             split: ranking_response.splits)
qed

lemma loadRanking_renders_example:
  "fst (loadRanking example_server example_ranking_dom) = ''/ranking?period=week''
   \<and> length (ranking_list (snd (snd (loadRanking example_server example_ranking_dom)))) = 2
   \<and> li_innerHTML (ranking_list (snd (snd (loadRanking example_server example_ranking_dom))) ! 0) =
        newline @ ''      <span class='' @ dquote @ ''rank-no'' @ dquote @ ''>1</span>''
        @ newline @ ''      <span class='' @ dquote @ ''rank-name'' @ dquote @ ''>a / X</span>''
        @ newline @ ''      <span class='' @ dquote @ ''rank-like'' @ dquote @ ''>''
        @ heart_filled @ '' 10</span>'' @ newline @ ''    ''
   \<and> ''rank-1'' \<in> set (li_classes (ranking_list (snd (snd (loadRanking example_server example_ranking_dom))) ! 0))
   \<and> ''rank-1'' \<notin> set (li_classes (ranking_list (snd (snd (loadRanking example_server example_ranking_dom))) ! 1))"
proof -
  let ?r = "ranking_list (snd (snd (loadRanking example_server example_ranking_dom)))"
  have srv: "example_server (''/ranking?period='' @ period_value example_ranking_dom)
               = Entries example_entries"
    by (simp add: example_server_def example_ranking_dom_def)
  note t = loadRanking_renders [of example_server example_ranking_dom example_entries]
  from t have url: "fst (loadRanking example_server example_ranking_dom)
                     = ''/ranking?period='' @ period_value example_ranking_dom"
    by blast
  from t srv have len: "length ?r = length example_entries"
    by blast
  from t srv have items: "\<forall>i < length example_entries.
      li_innerHTML (?r ! i) =
        newline @ ''      <span class='' @ dquote @ ''rank-no'' @ dquote @ ''>''
          @ decimal (i + 1) @ ''</span>''
        @ newline @ ''      <span class='' @ dquote @ ''rank-name'' @ dquote @ ''>''
          @ js_String (item_username (example_entries ! i)) @ '' / ''
          @ js_String (item_car_name (example_entries ! i)) @ ''</span>''
        @ newline @ ''      <span class='' @ dquote @ ''rank-like'' @ dquote @ ''>''
          @ heart_filled @ '' '' @ js_String (item_likes (example_entries ! i)) @ ''</span>''
        @ newline @ ''    ''
      \<and> ''ranking-item'' \<in> set (li_classes (?r ! i))
      \<and> (''rank-1'' \<in> set (li_classes (?r ! i)) \<longleftrightarrow> i = 0)"
    by blast
  have l2: "length example_entries = 2" by (simp add: example_entries_def)
  have dec: "decimal (Suc 0) = ''1''" "decimal 10 = ''10''" by (simp_all add: decimal.simps)
  from items [rule_format, of 0] l2 have h0: "li_innerHTML (?r ! 0) =
        newline @ ''      <span class='' @ dquote @ ''rank-no'' @ dquote @ ''>1</span>''
        @ newline @ ''      <span class='' @ dquote @ ''rank-name'' @ dquote @ ''>a / X</span>''
        @ newline @ ''      <span class='' @ dquote @ ''rank-like'' @ dquote @ ''>''
        @ heart_filled @ '' 10</span>'' @ newline @ ''    ''"
    and c0: "''rank-1'' \<in> set (li_classes (?r ! 0))"
    by (simp_all add: example_entries_def dec)
  from items [rule_format, of 1] l2 have c1: "''rank-1'' \<notin> set (li_classes (?r ! 1))"
    by simp
  from url have u: "fst (loadRanking example_server example_ranking_dom) = ''/ranking?period=week''"
    by (simp add: example_ranking_dom_def)
  from u len l2 h0 c0 c1 show ?thesis by simp
qed

text \<open>
  C9 at a ranking whose first user name is markup: the loader puts the name into the text it
  assigns to \<^verbatim>\<open>innerHTML\<close> as it is (lines 16 to 20 escape nothing), so that the item holds an
  \<^verbatim>\<open>img\<close> element with an \<^verbatim>\<open>onerror\<close> script where it should show the name.
\<close>

theorem loadRanking_markup_injected:
  "fst (snd (loadRanking markup_server example_ranking_dom)) = None
   \<and> length (ranking_list (snd (snd (loadRanking markup_server example_ranking_dom)))) = 1
   \<and> li_innerHTML (ranking_list (snd (snd (loadRanking markup_server example_ranking_dom))) ! 0) =
        newline @ ''      <span class='' @ dquote @ ''rank-no'' @ dquote @ ''>1</span>''
        @ newline @ ''      <span class='' @ dquote @ ''rank-name'' @ dquote @ ''>''
          @ ''<img src=x onerror=alert(1)>'' @ '' / X</span>''
        @ newline @ ''      <span class='' @ dquote @ ''rank-like'' @ dquote @ ''>''
          @ heart_filled @ '' 10</span>''
        @ newline @ ''    ''"
proof -
  have dec: "decimal (Suc 0) = ''1''" "decimal 10 = ''10''" by (simp_all add: decimal.simps)
  show ?thesis
    by (simp add: loadRanking_def markup_server_def markup_entries_def rank_li_def dec)
qed

section \<open>Properties of the like scripts: one response\<close>

lemma alert_fields [simp]:
  "buttons (alert msg pg) = buttons pg"
  "alerts (alert msg pg) = alerts pg @ [msg]"
  "href (alert msg pg) = href pg"
  "uncaught (alert msg pg) = uncaught pg"
  by (simp_all add: alert_def)

lemma update_btn_fields [simp]:
  "alerts (update_btn i f pg) = alerts pg"
  "href (update_btn i f pg) = href pg"
  "uncaught (update_btn i f pg) = uncaught pg"
  "length (buttons (update_btn i f pg)) = length (buttons pg)"
  by (simp_all add: update_btn_def)

lemma nth_update_btn:
  "buttons (update_btn i f pg) ! j =
     (if j = i \<and> i < length (buttons pg) then f (buttons pg ! i) else buttons pg ! j)"
  by (cases "i < length (buttons pg)") (auto simp: update_btn_def nth_list_update list_update_beyond not_less)

lemma map_update_btn:
  assumes "\<And>b. g (f b) = g b"
  shows "map g (buttons (update_btn i f pg)) = map g (buttons pg)"
  by (rule nth_equalityI) (simp_all add: nth_update_btn assms)

lemma displayed_reset_000 [simp]:
  "displayed (btn\<lparr>dataset_loading := l, disabled := d\<rparr>) = displayed btn"
  by (simp add: displayed_def)

lemma displayed_reset_001 [simp]:
  "displayed (btn\<lparr>classList := classList btn - {''is-loading''}\<rparr>) = (displayed btn)"
  by (auto simp: displayed_def)

lemma displayed_reset_002 [simp]:
  "displayed (btn\<lparr>dataset_loading := l, disabled := d,
                 classList := classList btn - {''is-loading''}\<rparr>) = displayed btn"
  by (auto simp: displayed_def)

lemma decimal_digit: "n < 10 \<Longrightarrow> decimal n = [''0123456789'' ! n]"
  by (simp add: decimal.simps)

lemma try_000_buttons_fail:
  "\<not> (\<exists>status d. r = Response status (Json d) \<and> res_ok status \<and> truthy (data_ok d)) \<Longrightarrow>
   buttons (snd (try_000 p r pg)) = buttons pg"
  by (auto simp: try_000_def res_ok_def split: fetch_result.splits body.splits)

lemma resume_000_displayed_fail:
  assumes "\<not> (\<exists>status d. r = Response status (Json d) \<and> res_ok status \<and> truthy (data_ok d))"
  shows "map displayed (buttons (resume_000 p r pg)) = map displayed (buttons pg)"
proof -
  obtain thrown pg1 where t: "try_000 p r pg = (thrown, pg1)" by (cases "try_000 p r pg")
  with try_000_buttons_fail [OF assms, of p pg] have "buttons pg1 = buttons pg" by simp
  with t show ?thesis
    by (cases thrown) (simp_all add: resume_000_def map_update_btn)
qed

lemma try_002_buttons_fail:
  "\<not> (\<exists>status d. r = Response status (Json d) \<and> res_ok status \<and> truthy (data_ok d)) \<Longrightarrow>
   buttons (snd (try_002 p r pg)) = buttons pg"
  by (auto simp: try_002_def res_ok_def split: fetch_result.splits body.splits)

lemma toggleLike_resume_displayed_fail:
  assumes "\<not> (\<exists>status d. r = Response status (Json d) \<and> res_ok status \<and> truthy (data_ok d))"
  shows "map displayed (buttons (toggleLike_resume p r pg)) = map displayed (buttons pg)"
proof -
  obtain thrown pg1 where t: "try_002 p r pg = (thrown, pg1)" by (cases "try_002 p r pg")
  with try_002_buttons_fail [OF assms, of p pg] have "buttons pg1 = buttons pg" by simp
  with t show ?thesis
    by (cases thrown) (simp_all add: toggleLike_resume_def map_update_btn)
qed

lemma try_001_buttons_fail:
  "\<not> (\<exists>status d. r = Response status (Json d) \<and> res_ok status \<and> data_ok d = JBool True) \<Longrightarrow>
   buttons (snd (try_001 p r pg)) = buttons pg"
  by (auto simp: try_001_def postJson_def split: fetch_result.splits body.splits)

lemma handlePostLike_resume_displayed_fail:
  assumes "\<not> (\<exists>status d. r = Response status (Json d) \<and> res_ok status \<and> data_ok d = JBool True)"
  shows "map displayed (buttons (handlePostLike_resume p r pg)) = map displayed (buttons pg)"
proof -
  obtain thrown pg1 where t: "try_001 p r pg = (thrown, pg1)" by (cases "try_001 p r pg")
  with try_001_buttons_fail [OF assms, of p pg] have "buttons pg1 = buttons pg" by simp
  with t show ?thesis
    by (cases thrown) (simp_all add: handlePostLike_resume_def map_update_btn)
qed

lemma resume_000_alerts:
  "alerts (resume_000 p r pg) = alerts (snd (try_000 p r pg)) @
     (case fst (try_000 p r pg) of None \<Rightarrow> [] | Some _ \<Rightarrow> [msg_network])"
  by (cases "try_000 p r pg") (simp add: resume_000_def split: option.splits)

lemma toggleLike_resume_alerts:
  "alerts (toggleLike_resume p r pg) = alerts (snd (try_002 p r pg)) @
     (case fst (try_002 p r pg) of None \<Rightarrow> [] | Some _ \<Rightarrow> [msg_network])"
  by (cases "try_002 p r pg") (simp add: toggleLike_resume_def split: option.splits)

lemma resume_000_href: "href (resume_000 p r pg) = href pg"
  by (cases "try_000 p r pg")
     (auto simp: resume_000_def try_000_def split: option.splits fetch_result.splits body.splits if_splits)

lemma updateButtons_fields [simp]:
  "alerts (snd (updateButtons i l n pg)) = alerts pg"
  "href (snd (updateButtons i l n pg)) = href pg"
  "uncaught (snd (updateButtons i l n pg)) = uncaught pg"
  "length (buttons (snd (updateButtons i l n pg))) = length (buttons pg)"
  by (simp_all add: updateButtons_def)

lemma toggleLike_resume_href: "href (toggleLike_resume p r pg) = href pg"
  by (cases "try_002 p r pg")
     (auto simp: toggleLike_resume_def try_002_def updateButtons_def
           split: option.splits fetch_result.splits body.splits if_splits)

lemma handlePostLike_resume_alerts: "alerts (handlePostLike_resume p r pg) = alerts pg"
  by (cases "try_001 p r pg")
     (auto simp: handlePostLike_resume_def try_001_def postJson_def
           split: option.splits fetch_result.splits body.splits if_splits sum.splits)

lemma handlePostLike_resume_href_401:
  "href (handlePostLike_resume p (Response 401 b) pg) =
     (if \<exists>d. b = Json d \<and> data_error d = JStr ''login_required'' then ''/login'' else href pg)"
  by (cases b) (simp_all add: handlePostLike_resume_def try_001_def postJson_def res_ok_def)

text \<open>
  C3, as stated, in the posts and comments script: a 401 whose body is not JSON surfaces
  nothing, neither a notice nor a redirect.
\<close>

theorem unauthorized_001_silent_counterexample:
  "snd (on_click_001 (Some 0) example_page) = Some example_pending
   \<and> alerts (handlePostLike_resume example_pending (Response 401 NoJson)
               (fst (on_click_001 (Some 0) example_page))) = []
   \<and> href (handlePostLike_resume example_pending (Response 401 NoJson)
               (fst (on_click_001 (Some 0) example_page))) = ''/''
   \<and> uncaught (handlePostLike_resume example_pending (Response 401 NoJson)
               (fst (on_click_001 (Some 0) example_page))) = []"
  by (simp add: on_click_001_def closest_def example_page_def example_button_def
        handlePostLike_def example_pending_def handlePostLike_resume_def try_001_def
        postJson_def)

text \<open>
  C3, amended: for every like toggle whose HTTP response has status 401, no displayed
  liked-state or count changes. The scripts part_000 and part_002 surface the login notice
  (an alert) and do not redirect; the script part_001 shows no notice, and redirects to
  \<^verbatim>\<open>/login\<close> exactly when the body is a JSON object whose \<^verbatim>\<open>error\<close> is \<^verbatim>\<open>"login_required"\<close>.
\<close>

theorem unauthorized_response:
  "alerts (resume_000 p (Response 401 b) pg) = alerts pg @ [msg_login]
   \<and> href (resume_000 p (Response 401 b) pg) = href pg
   \<and> map displayed (buttons (resume_000 p (Response 401 b) pg)) = map displayed (buttons pg)
   \<and> alerts (toggleLike_resume p (Response 401 b) pg) = alerts pg @ [msg_login]
   \<and> href (toggleLike_resume p (Response 401 b) pg) = href pg
   \<and> map displayed (buttons (toggleLike_resume p (Response 401 b) pg)) = map displayed (buttons pg)
   \<and> alerts (handlePostLike_resume p (Response 401 b) pg) = alerts pg
   \<and> href (handlePostLike_resume p (Response 401 b) pg) =
        (if \<exists>d. b = Json d \<and> data_error d = JStr ''login_required'' then ''/login'' else href pg)
   \<and> map displayed (buttons (handlePostLike_resume p (Response 401 b) pg)) = map displayed (buttons pg)"
proof -
  have nok: "\<not> res_ok 401" by (simp add: res_ok_def)
  have f0: "\<not> (\<exists>status d. Response 401 b = Response status (Json d) \<and> res_ok status \<and> truthy (data_ok d))"
    using nok by auto
  have f1: "\<not> (\<exists>status d. Response 401 b = Response status (Json d) \<and> res_ok status \<and> data_ok d = JBool True)"
    using nok by auto
  have a0: "alerts (resume_000 p (Response 401 b) pg) = alerts pg @ [msg_login]"
    by (simp add: resume_000_alerts try_000_def)
  have a2: "alerts (toggleLike_resume p (Response 401 b) pg) = alerts pg @ [msg_login]"
    by (simp add: toggleLike_resume_alerts try_002_def)
  show ?thesis
    using a0 a2 resume_000_displayed_fail [OF f0] toggleLike_resume_displayed_fail [OF f0]
      handlePostLike_resume_displayed_fail [OF f1]
    by (simp add: resume_000_href toggleLike_resume_href handlePostLike_resume_alerts
          handlePostLike_resume_href_401)
qed

theorem unauthorized_response_witness:
  "alerts (resume_000 example_pending (Response 401 NoJson) example_page) = [msg_login]
   \<and> alerts (toggleLike_resume example_pending (Response 401 NoJson) example_page) = [msg_login]
   \<and> href (handlePostLike_resume example_pending
        (Response 401 (Json \<lparr>data_ok = JBool False, data_liked = JUndefined, data_likes = JUndefined,
                               data_error = JStr ''login_required''\<rparr>)) example_page) = ''/login''
   \<and> map displayed (buttons (resume_000 example_pending (Response 401 NoJson) example_page))
       = map displayed (buttons example_page)"
  using
    unauthorized_response [of example_pending NoJson example_page]
    unauthorized_response [of example_pending
      "Json \<lparr>data_ok = JBool False, data_liked = JUndefined, data_likes = JUndefined,
              data_error = JStr ''login_required''\<rparr>" example_page]
  by (simp add: example_page_def)

lemma handlePostLike_resume_href_silent:
  "\<not> (\<exists>status d. r = Response status (Json d) \<and> data_error d = JStr ''login_required'') \<Longrightarrow>
   href (handlePostLike_resume p r pg) = href pg"
  by (cases "try_001 p r pg")
     (auto simp: handlePostLike_resume_def try_001_def postJson_def
           split: option.splits fetch_result.splits body.splits if_splits sum.splits)

lemma handlePostLike_resume_uncaught:
  "uncaught (handlePostLike_resume p r pg) =
     uncaught pg @ (if r = FetchRejected then [NetworkError] else [])"
  by (cases "try_001 p r pg")
     (auto simp: handlePostLike_resume_def try_001_def postJson_def
           split: option.splits fetch_result.splits body.splits if_splits sum.splits)

text \<open>
  C4, as stated, in the posts and comments script: a response of status 500 that carries an
  error message surfaces no notice.
\<close>

theorem failure_001_silent_counterexample:
  "snd (on_click_001 (Some 0) example_page) = Some example_pending
   \<and> alerts (handlePostLike_resume example_pending
        (Response 500 (Json \<lparr>data_ok = JBool False, data_liked = JUndefined,
                              data_likes = JUndefined, data_error = JStr ''boom''\<rparr>))
        (fst (on_click_001 (Some 0) example_page))) = []
   \<and> href (handlePostLike_resume example_pending
        (Response 500 (Json \<lparr>data_ok = JBool False, data_liked = JUndefined,
                              data_likes = JUndefined, data_error = JStr ''boom''\<rparr>))
        (fst (on_click_001 (Some 0) example_page))) = ''/''"
  by (simp add: on_click_001_def closest_def example_page_def example_button_def
        handlePostLike_def example_pending_def handlePostLike_resume_def try_001_def
        postJson_def res_ok_def)

text \<open>
  C4, amended. In the scripts part_000 and part_002: a status that is neither 2xx nor 401
  surfaces the generic API failure notice; a 2xx body whose \<^verbatim>\<open>ok\<close> is falsy surfaces the
  server's \<^verbatim>\<open>error\<close> when that is truthy (present and not empty) and the generic fallback
  otherwise; a rejected \<^verbatim>\<open>fetch\<close>, a 2xx body that is not JSON and a 2xx body \<^verbatim>\<open>null\<close> surface
  the generic connectivity notice. In the script part_001 none of these surfaces a notice
  (a rejected \<^verbatim>\<open>fetch\<close> leaves the handler uncaught), and a response that is not ok or
  whose \<^verbatim>\<open>ok\<close> is not \<^verbatim>\<open>true\<close> redirects only when its \<^verbatim>\<open>error\<close> is \<^verbatim>\<open>"login_required"\<close>. In
  all three the displayed liked-state and count are left unchanged.
\<close>

theorem failed_response:
  "(\<not> res_ok status \<and> status \<noteq> 401 \<longrightarrow>
      alerts (resume_000 p (Response status b) pg) = alerts pg @ [msg_api_error]
      \<and> alerts (toggleLike_resume p (Response status b) pg) = alerts pg @ [msg_api_error])
   \<and> (res_ok status \<and> \<not> truthy (data_ok d) \<longrightarrow>
      alerts (resume_000 p (Response status (Json d)) pg) =
        alerts pg @ [if truthy (data_error d) then js_String (data_error d) else msg_failed]
      \<and> alerts (toggleLike_resume p (Response status (Json d)) pg) =
        alerts pg @ [if truthy (data_error d) then js_String (data_error d) else msg_failed])
   \<and> (r = FetchRejected \<or> (res_ok status \<and> (r = Response status NoJson \<or> r = Response status JsonNull)) \<longrightarrow>
      alerts (resume_000 p r pg) = alerts pg @ [msg_network]
      \<and> alerts (toggleLike_resume p r pg) = alerts pg @ [msg_network])
   \<and> (\<not> (\<exists>s e. r = Response s (Json e) \<and> res_ok s \<and> truthy (data_ok e)) \<longrightarrow>
      map displayed (buttons (resume_000 p r pg)) = map displayed (buttons pg)
      \<and> map displayed (buttons (toggleLike_resume p r pg)) = map displayed (buttons pg))
   \<and> (\<not> (\<exists>s e. r = Response s (Json e) \<and> res_ok s \<and> data_ok e = JBool True) \<longrightarrow>
      alerts (handlePostLike_resume p r pg) = alerts pg
      \<and> map displayed (buttons (handlePostLike_resume p r pg)) = map displayed (buttons pg)
      \<and> uncaught (handlePostLike_resume p r pg) =
           uncaught pg @ (if r = FetchRejected then [NetworkError] else [])
      \<and> ((\<forall>s e. r = Response s (Json e) \<longrightarrow> data_error e \<noteq> JStr ''login_required'') \<longrightarrow>
           href (handlePostLike_resume p r pg) = href pg))"
proof -
  have c1: "\<not> res_ok status \<and> status \<noteq> 401 \<longrightarrow>
      alerts (resume_000 p (Response status b) pg) = alerts pg @ [msg_api_error]
      \<and> alerts (toggleLike_resume p (Response status b) pg) = alerts pg @ [msg_api_error]"
    by (simp add: resume_000_alerts toggleLike_resume_alerts try_000_def try_002_def)
  have c2: "res_ok status \<and> \<not> truthy (data_ok d) \<longrightarrow>
      alerts (resume_000 p (Response status (Json d)) pg) =
        alerts pg @ [if truthy (data_error d) then js_String (data_error d) else msg_failed]
      \<and> alerts (toggleLike_resume p (Response status (Json d)) pg) =
        alerts pg @ [if truthy (data_error d) then js_String (data_error d) else msg_failed]"
    by (auto simp: resume_000_alerts toggleLike_resume_alerts try_000_def try_002_def
          res_ok_def js_or_def)
  have c3: "r = FetchRejected \<or> (res_ok status \<and> (r = Response status NoJson \<or> r = Response status JsonNull)) \<longrightarrow>
      alerts (resume_000 p r pg) = alerts pg @ [msg_network]
      \<and> alerts (toggleLike_resume p r pg) = alerts pg @ [msg_network]"
    by (auto simp: resume_000_alerts toggleLike_resume_alerts try_000_def try_002_def res_ok_def)
  have c4: "\<not> (\<exists>s e. r = Response s (Json e) \<and> res_ok s \<and> truthy (data_ok e)) \<longrightarrow>
      map displayed (buttons (resume_000 p r pg)) = map displayed (buttons pg)
      \<and> map displayed (buttons (toggleLike_resume p r pg)) = map displayed (buttons pg)"
    using resume_000_displayed_fail [of r p pg] toggleLike_resume_displayed_fail [of r p pg]
    by blast
  have c5: "\<not> (\<exists>s e. r = Response s (Json e) \<and> res_ok s \<and> data_ok e = JBool True) \<longrightarrow>
      alerts (handlePostLike_resume p r pg) = alerts pg
      \<and> map displayed (buttons (handlePostLike_resume p r pg)) = map displayed (buttons pg)
      \<and> uncaught (handlePostLike_resume p r pg) =
           uncaught pg @ (if r = FetchRejected then [NetworkError] else [])
      \<and> ((\<forall>s e. r = Response s (Json e) \<longrightarrow> data_error e \<noteq> JStr ''login_required'') \<longrightarrow>
           href (handlePostLike_resume p r pg) = href pg)"
    using handlePostLike_resume_displayed_fail [of r p pg]
      handlePostLike_resume_href_silent [of r p pg]
    by (simp add: handlePostLike_resume_alerts handlePostLike_resume_uncaught)
  from c1 c2 c3 c4 c5 show ?thesis by blast
qed

theorem failed_response_witness:
  "alerts (resume_000 example_pending (Response 500 NoJson) example_page) = [msg_api_error]
   \<and> alerts (toggleLike_resume example_pending
        (Response 200 (Json \<lparr>data_ok = JBool False, data_liked = JUndefined,
                              data_likes = JUndefined, data_error = JStr ''boom''\<rparr>))
        example_page) = [''boom'']
   \<and> alerts (resume_000 example_pending FetchRejected example_page) = [msg_network]
   \<and> map displayed (buttons (resume_000 example_pending FetchRejected example_page))
        = map displayed (buttons example_page)
   \<and> alerts (handlePostLike_resume example_pending FetchRejected example_page) = []
   \<and> uncaught (handlePostLike_resume example_pending FetchRejected example_page) = [NetworkError]"
proof -
  have h1: "\<not> res_ok 500 \<and> (500::nat) \<noteq> 401" by (simp add: res_ok_def)
  have h2: "res_ok 200 \<and> \<not> truthy (data_ok \<lparr>data_ok = JBool False, data_liked = JUndefined,
                              data_likes = JUndefined, data_error = JStr ''boom''\<rparr>)"
    by (simp add: res_ok_def)
  have h4: "\<not> (\<exists>s e. FetchRejected = Response s (Json e) \<and> res_ok s \<and> truthy (data_ok e))"
    by simp
  have h5: "\<not> (\<exists>s e. FetchRejected = Response s (Json e) \<and> res_ok s \<and> data_ok e = JBool True)"
    by simp
  from h1 failed_response [of 500 example_pending NoJson example_page]
  have w1: "alerts (resume_000 example_pending (Response 500 NoJson) example_page)
              = alerts example_page @ [msg_api_error]"
    by blast
  from h2 failed_response [of 200 example_pending _ example_page
      "\<lparr>data_ok = JBool False, data_liked = JUndefined,
        data_likes = JUndefined, data_error = JStr ''boom''\<rparr>"]
  have w2: "alerts (toggleLike_resume example_pending
        (Response 200 (Json \<lparr>data_ok = JBool False, data_liked = JUndefined,
                              data_likes = JUndefined, data_error = JStr ''boom''\<rparr>))
        example_page) = alerts example_page @ [''boom'']"
    by simp
  from h4 h5 failed_response [of _ example_pending _ example_page _ FetchRejected]
  have w3: "alerts (resume_000 example_pending FetchRejected example_page)
              = alerts example_page @ [msg_network]"
    and w4: "map displayed (buttons (resume_000 example_pending FetchRejected example_page))
        = map displayed (buttons example_page)"
    and w5: "alerts (handlePostLike_resume example_pending FetchRejected example_page)
              = alerts example_page"
    and w6: "uncaught (handlePostLike_resume example_pending FetchRejected example_page)
              = uncaught example_page @ [NetworkError]"
    by simp_all
  from w1 w2 w3 w4 w5 w6 show ?thesis by (simp add: example_page_def)
qed

lemma update_btn_undo:
  assumes "\<And>b. P b \<Longrightarrow> g (f b) = b" and "i < length (buttons pg) \<Longrightarrow> P (buttons pg ! i)"
  shows "update_btn i g (update_btn i f pg) = pg"
proof (cases "i < length (buttons pg)")
  case True
  with assms show ?thesis by (simp add: update_btn_def)
next
  case False
  then show ?thesis by (simp add: update_btn_def list_update_beyond)
qed

lemma handlePostLike_issued:
  "handlePostLike i pg = (pg', Some p) \<Longrightarrow>
   ''is-loading'' \<notin> classList (buttons pg ! i) \<and> p_btn p = i
   \<and> pg' = update_btn i (\<lambda>btn. btn\<lparr>classList := insert ''is-loading'' (classList btn)\<rparr>) pg"
  by (auto simp: handlePostLike_def split: if_splits option.splits)

lemma handleCommentLike_issued:
  "handleCommentLike i pg = (pg', Some p) \<Longrightarrow>
   ''is-loading'' \<notin> classList (buttons pg ! i) \<and> p_btn p = i
   \<and> pg' = update_btn i (\<lambda>btn. btn\<lparr>classList := insert ''is-loading'' (classList btn)\<rparr>) pg"
  by (auto simp: handleCommentLike_def split: if_splits option.splits)

lemma handlePostLike_resume_NoJson:
  "handlePostLike_resume p (Response status NoJson) pg =
     update_btn (p_btn p) (\<lambda>btn. btn\<lparr>classList := classList btn - {''is-loading''}\<rparr>) pg"
  by (simp add: handlePostLike_resume_def try_001_def postJson_def)

lemma loading_round_trip:
  assumes "''is-loading'' \<notin> classList (buttons pg ! i)"
  shows "update_btn i (\<lambda>btn. btn\<lparr>classList := classList btn - {''is-loading''}\<rparr>)
           (update_btn i (\<lambda>btn. btn\<lparr>classList := insert ''is-loading'' (classList btn)\<rparr>) pg) = pg"
  by (rule update_btn_undo [where P = "\<lambda>b. ''is-loading'' \<notin> classList b"]) (use assms in auto)

text \<open>
  C10: in the posts and comments script a body that is absent or not JSON (\<^verbatim>\<open>res.json()\<close>
  rejects) raises nothing out of \<^verbatim>\<open>postJson\<close>, which returns a result with \<^verbatim>\<open>data\<close> \<^verbatim>\<open>null\<close>;
  the handler then returns having changed nothing on the page: its \<^verbatim>\<open>finally\<close> takes off the
  \<^verbatim>\<open>is-loading\<close> class it had put on, no notice, redirect or uncaught error arises and no
  element displays anything else, so that the page is what it was before the click.
\<close>

theorem postJson_bad_body:
  "postJson (Response status NoJson) = Inr \<lparr>r_ok = res_ok status, r_status = status, r_data = None\<rparr>
   \<and> alerts (handlePostLike_resume p (Response status NoJson) pg) = alerts pg
   \<and> href (handlePostLike_resume p (Response status NoJson) pg) = href pg
   \<and> uncaught (handlePostLike_resume p (Response status NoJson) pg) = uncaught pg
   \<and> map displayed (buttons (handlePostLike_resume p (Response status NoJson) pg))
        = map displayed (buttons pg)
   \<and> (handlePostLike i pg0 = (pg1, Some q) \<or> handleCommentLike i pg0 = (pg1, Some q) \<longrightarrow>
        handlePostLike_resume q (Response status NoJson) pg1 = pg0
        \<and> handleCommentLike_resume q (Response status NoJson) pg1 = pg0)"
proof -
  have "handlePostLike_resume q (Response status NoJson) pg1 = pg0"
    if "handlePostLike i pg0 = (pg1, Some q) \<or> handleCommentLike i pg0 = (pg1, Some q)"
    using that handlePostLike_issued [of i pg0 pg1 q] handleCommentLike_issued [of i pg0 pg1 q]
      loading_round_trip [of pg0 i]
    by (auto simp: handlePostLike_resume_NoJson)
  then show ?thesis
    by (simp add: handlePostLike_resume_NoJson map_update_btn handleCommentLike_resume_def)
       (simp add: postJson_def)
qed

theorem postJson_bad_body_witness:
  "postJson (Response 200 NoJson) = Inr \<lparr>r_ok = True, r_status = 200, r_data = None\<rparr>
   \<and> handlePostLike 0 example_page \<noteq> (example_page, None)
   \<and> handlePostLike_resume (the (snd (handlePostLike 0 example_page))) (Response 200 NoJson)
        (fst (handlePostLike 0 example_page)) = example_page"
proof -
  have i: "handlePostLike 0 example_page =
             (fst (handlePostLike 0 example_page), Some (the (snd (handlePostLike 0 example_page))))"
    by (simp add: handlePostLike_def example_page_def example_button_def)
  have ne: "handlePostLike 0 example_page \<noteq> (example_page, None)"
    by (simp add: handlePostLike_def example_page_def example_button_def)
  from i postJson_bad_body [of 200 _ _ 0 example_page "fst (handlePostLike 0 example_page)"
      "the (snd (handlePostLike 0 example_page))"]
  have "postJson (Response 200 NoJson) = Inr \<lparr>r_ok = res_ok 200, r_status = 200, r_data = None\<rparr>"
    and "handlePostLike_resume (the (snd (handlePostLike 0 example_page))) (Response 200 NoJson)
        (fst (handlePostLike 0 example_page)) = example_page"
    by blast+
  with ne show ?thesis by (simp add: res_ok_def)
qed

lemma try_002_success:
  "res_ok status \<Longrightarrow> truthy (data_ok d) \<Longrightarrow>
   try_002 p (Response status (Json d)) pg = updateButtons (p_id p) (data_liked d) (data_likes d) pg"
  by (auto simp: try_002_def res_ok_def)

lemma try_000_success:
  "res_ok status \<Longrightarrow> truthy (data_ok d) \<Longrightarrow>
   try_000 p (Response status (Json d)) pg =
     (None, update_btn (p_btn p) (reflect_000 (data_liked d) (data_likes d)) pg)"
  by (auto simp: try_000_def res_ok_def)

lemma toggleLike_resume_success_nth:
  assumes "res_ok status" "truthy (data_ok d)" "css_plain (p_id p)" "j < length (buttons pg)"
    "''js-like'' \<in> classList (buttons pg ! j)" "dataset_postId (buttons pg ! j) = Some (p_id p)"
  shows "displayed (buttons (toggleLike_resume p (Response status (Json d)) pg) ! j) =
           displayed (reflect_002 (data_liked d) (data_likes d) (buttons pg ! j))"
  using assms
  by (auto simp add: toggleLike_resume_def try_002_success updateButtons_def nth_update_btn)

lemma toggleLike_resume_success_other:
  assumes "res_ok status" "truthy (data_ok d)" "css_plain (p_id p)" "j < length (buttons pg)"
    "\<not> (''js-like'' \<in> classList (buttons pg ! j) \<and> dataset_postId (buttons pg ! j) = Some (p_id p))"
  shows "displayed (buttons (toggleLike_resume p (Response status (Json d)) pg) ! j) =
           displayed (buttons pg ! j)"
  using assms
  by (auto simp add: toggleLike_resume_def try_002_success updateButtons_def nth_update_btn)

lemma resume_000_success_nth:
  assumes "res_ok status" "truthy (data_ok d)" "j < length (buttons pg)"
  shows "displayed (buttons (resume_000 p (Response status (Json d)) pg) ! j) =
           (if j = p_btn p then displayed (reflect_000 (data_liked d) (data_likes d) (buttons pg ! j))
            else displayed (buttons pg ! j))"
  using assms
  by (simp add: resume_000_def try_000_success nth_update_btn)

lemma displayed_reflect_002:
  "displayed (reflect_002 liked likes btn) =
     (truthy liked, Some (if truthy liked then ''true'' else ''false''),
      set_text (if truthy liked then heart_filled else heart_outline) (like_icon btn),
      set_text (js_String likes) (like_count btn),
      Some (if truthy liked then ''1'' else ''0''))"
  by (simp add: displayed_def reflect_002_def classList_toggle_def)

lemma displayed_reflect_000:
  "displayed (reflect_000 liked likes btn) =
     (truthy liked, Some (if truthy liked then ''true'' else ''false''),
      set_text (if truthy liked then heart_filled else heart_outline) (like_icon btn),
      set_text (js_String likes) (like_count btn),
      Some (if truthy liked then ''1'' else ''0''))"
  by (simp add: displayed_def reflect_000_def classList_toggle_def)

text \<open>
  C1, as stated, in the script part_000: the page shows the button of post 42 twice; after a
  click on the first and the response \<^verbatim>\<open>{ok: true, liked: true, likes: 4}\<close> the second, bound
  to the same id, still shows the count 3, the outline heart and no active class.
\<close>

theorem like_000_single_element_counterexample:
  "snd (on_click_000 (Some 0) example_page) = Some example_pending
   \<and> dataset_postId (buttons example_page ! 1) = Some ''42''
   \<and> like_count (buttons (resume_000 example_pending example_success
                              (fst (on_click_000 (Some 0) example_page))) ! 0) = Some ''4''
   \<and> like_count (buttons (resume_000 example_pending example_success
                              (fst (on_click_000 (Some 0) example_page))) ! 1) = Some ''3''
   \<and> like_icon (buttons (resume_000 example_pending example_success
                              (fst (on_click_000 (Some 0) example_page))) ! 1) = Some heart_outline
   \<and> ''active'' \<notin> classList (buttons (resume_000 example_pending example_success
                              (fst (on_click_000 (Some 0) example_page))) ! 1)"
  by (simp add: on_click_000_def closest_def example_page_def example_button_def
        example_pending_def example_success_def resume_000_def try_000_def res_ok_def
        update_btn_def reflect_000_def set_text_def decimal_digit)

text \<open>
  C1, amended: for every like toggle whose HTTP response is ok and whose JSON payload
  indicates success (a truthy \<^verbatim>\<open>ok\<close>), the script part_002 updates every on-page \<^verbatim>\<open>.js-like\<close>
  element bound to the same post id (not only the clicked one; the id free of double quote,
  backslash and line break, so that the selector is the quoted id) to the new liked boolean
  and count: the active class matches liked, \<^verbatim>\<open>aria-pressed\<close> is \<^verbatim>\<open>"true"\<close> or \<^verbatim>\<open>"false"\<close>, the
  icon child shows the filled or the outline heart and the count child shows the new count;
  the script part_000 updates the clicked element so, and no other element.
\<close>

theorem like_success_updates:
  "res_ok status \<and> truthy (data_ok d) \<longrightarrow>
     (css_plain (p_id p) \<longrightarrow>
        (\<forall>j < length (buttons pg).
           ''js-like'' \<in> classList (buttons pg ! j) \<and> dataset_postId (buttons pg ! j) = Some (p_id p) \<longrightarrow>
             (let b = buttons (toggleLike_resume p (Response status (Json d)) pg) ! j
              in (''active'' \<in> classList b \<longleftrightarrow> truthy (data_liked d))
                 \<and> aria_pressed b = Some (if truthy (data_liked d) then ''true'' else ''false'')
                 \<and> like_icon b = set_text (if truthy (data_liked d) then heart_filled else heart_outline)
                                   (like_icon (buttons pg ! j))
                 \<and> like_count b = set_text (js_String (data_likes d)) (like_count (buttons pg ! j)))))
     \<and> (p_btn p < length (buttons pg) \<longrightarrow>
          (let b = buttons (resume_000 p (Response status (Json d)) pg) ! p_btn p
           in (''active'' \<in> classList b \<longleftrightarrow> truthy (data_liked d))
              \<and> aria_pressed b = Some (if truthy (data_liked d) then ''true'' else ''false'')
              \<and> like_icon b = set_text (if truthy (data_liked d) then heart_filled else heart_outline)
                                (like_icon (buttons pg ! p_btn p))
              \<and> like_count b = set_text (js_String (data_likes d)) (like_count (buttons pg ! p_btn p))))
     \<and> (\<forall>j < length (buttons pg). j \<noteq> p_btn p \<longrightarrow>
          displayed (buttons (resume_000 p (Response status (Json d)) pg) ! j) = displayed (buttons pg ! j))"
proof (intro impI conjI allI)
  assume ok: "res_ok status \<and> truthy (data_ok d)"
  {
    fix j
    assume "css_plain (p_id p)" "j < length (buttons pg)"
      "''js-like'' \<in> classList (buttons pg ! j) \<and> dataset_postId (buttons pg ! j) = Some (p_id p)"
    with ok have "displayed (buttons (toggleLike_resume p (Response status (Json d)) pg) ! j) =
           displayed (reflect_002 (data_liked d) (data_likes d) (buttons pg ! j))"
      by (simp add: toggleLike_resume_success_nth)
    then show "let b = buttons (toggleLike_resume p (Response status (Json d)) pg) ! j
              in (''active'' \<in> classList b \<longleftrightarrow> truthy (data_liked d))
                 \<and> aria_pressed b = Some (if truthy (data_liked d) then ''true'' else ''false'')
                 \<and> like_icon b = set_text (if truthy (data_liked d) then heart_filled else heart_outline)
                                   (like_icon (buttons pg ! j))
                 \<and> like_count b = set_text (js_String (data_likes d)) (like_count (buttons pg ! j))"
      unfolding displayed_reflect_002 by (simp add: displayed_def Let_def)
  }
  {
    assume "p_btn p < length (buttons pg)"
    with ok have "displayed (buttons (resume_000 p (Response status (Json d)) pg) ! p_btn p) =
        displayed (reflect_000 (data_liked d) (data_likes d) (buttons pg ! p_btn p))"
      by (simp add: resume_000_success_nth)
    then show "let b = buttons (resume_000 p (Response status (Json d)) pg) ! p_btn p
           in (''active'' \<in> classList b \<longleftrightarrow> truthy (data_liked d))
              \<and> aria_pressed b = Some (if truthy (data_liked d) then ''true'' else ''false'')
              \<and> like_icon b = set_text (if truthy (data_liked d) then heart_filled else heart_outline)
                                (like_icon (buttons pg ! p_btn p))
              \<and> like_count b = set_text (js_String (data_likes d)) (like_count (buttons pg ! p_btn p))"
      unfolding displayed_reflect_000 by (simp add: displayed_def Let_def)
  }
  {
    fix j
    assume "j < length (buttons pg)" "j \<noteq> p_btn p"
    with ok show "displayed (buttons (resume_000 p (Response status (Json d)) pg) ! j)
                    = displayed (buttons pg ! j)"
      by (simp add: resume_000_success_nth)
  }
qed

theorem like_success_updates_witness:
  "like_count (buttons (toggleLike_resume example_pending example_success example_page) ! 1) = Some ''4''
   \<and> like_icon (buttons (toggleLike_resume example_pending example_success example_page) ! 1)
        = Some heart_filled
   \<and> aria_pressed (buttons (toggleLike_resume example_pending example_success example_page) ! 1)
        = Some ''true''
   \<and> ''active'' \<in> classList (buttons (toggleLike_resume example_pending example_success example_page) ! 1)
   \<and> like_count (buttons (resume_000 example_pending example_success example_page) ! 0) = Some ''4''
   \<and> displayed (buttons (resume_000 example_pending example_success example_page) ! 1)
        = displayed example_button"
proof -
  let ?d = "\<lparr>data_ok = JBool True, data_liked = JBool True, data_likes = JNum 4,
             data_error = JUndefined\<rparr>"
  have s: "example_success = Response 200 (Json ?d)" by (simp add: example_success_def)
  have h: "res_ok 200 \<and> truthy (data_ok ?d)" by (simp add: res_ok_def)
  have plain: "css_plain (p_id example_pending)" by (simp add: css_plain_def example_pending_def)
  have len: "length (buttons example_page) = 3" by (simp add: example_page_def)
  have b1: "''js-like'' \<in> classList (buttons example_page ! 1)
            \<and> dataset_postId (buttons example_page ! 1) = Some (p_id example_pending)"
    by (simp add: example_page_def example_button_def example_pending_def)
  have old: "like_icon (buttons example_page ! Suc 0) = Some heart_outline"
    "like_count (buttons example_page ! Suc 0) = Some ''3''"
    "like_icon (buttons example_page ! 0) = Some heart_outline"
    "like_count (buttons example_page ! 0) = Some ''3''"
    by (simp_all add: example_page_def example_button_def)
  have oldb: "buttons example_page ! Suc 0 = example_button"
    by (simp add: example_page_def)
  have p0: "p_btn example_pending = 0" by (simp add: example_pending_def)
  note t = like_success_updates [of 200 ?d example_pending example_page]
  from t h have A: "css_plain (p_id example_pending) \<longrightarrow>
        (\<forall>j < length (buttons example_page).
           ''js-like'' \<in> classList (buttons example_page ! j)
           \<and> dataset_postId (buttons example_page ! j) = Some (p_id example_pending) \<longrightarrow>
             (let b = buttons (toggleLike_resume example_pending (Response 200 (Json ?d)) example_page) ! j
              in (''active'' \<in> classList b \<longleftrightarrow> truthy (data_liked ?d))
                 \<and> aria_pressed b = Some (if truthy (data_liked ?d) then ''true'' else ''false'')
                 \<and> like_icon b = set_text (if truthy (data_liked ?d) then heart_filled else heart_outline)
                                   (like_icon (buttons example_page ! j))
                 \<and> like_count b = set_text (js_String (data_likes ?d)) (like_count (buttons example_page ! j))))"
    and B: "p_btn example_pending < length (buttons example_page) \<longrightarrow>
          (let b = buttons (resume_000 example_pending (Response 200 (Json ?d)) example_page) ! p_btn example_pending
           in (''active'' \<in> classList b \<longleftrightarrow> truthy (data_liked ?d))
              \<and> aria_pressed b = Some (if truthy (data_liked ?d) then ''true'' else ''false'')
              \<and> like_icon b = set_text (if truthy (data_liked ?d) then heart_filled else heart_outline)
                                (like_icon (buttons example_page ! p_btn example_pending))
              \<and> like_count b = set_text (js_String (data_likes ?d)) (like_count (buttons example_page ! p_btn example_pending)))"
    and C: "\<forall>j < length (buttons example_page). j \<noteq> p_btn example_pending \<longrightarrow>
          displayed (buttons (resume_000 example_pending (Response 200 (Json ?d)) example_page) ! j)
            = displayed (buttons example_page ! j)"
    by blast+
  from A [rule_format, OF plain, of 1] len b1
  have w2: "like_count (buttons (toggleLike_resume example_pending example_success example_page) ! 1) = Some ''4''
   \<and> like_icon (buttons (toggleLike_resume example_pending example_success example_page) ! 1)
        = Some heart_filled
   \<and> aria_pressed (buttons (toggleLike_resume example_pending example_success example_page) ! 1)
        = Some ''true''
   \<and> ''active'' \<in> classList (buttons (toggleLike_resume example_pending example_success example_page) ! 1)"
    by (simp add: Let_def s old set_text_def decimal_digit)
  from B [rule_format] len p0
  have w0: "like_count (buttons (resume_000 example_pending example_success example_page) ! 0) = Some ''4''"
    by (simp add: Let_def s old set_text_def decimal_digit)
  from C [rule_format, of 1] len p0
  have w1: "displayed (buttons (resume_000 example_pending example_success example_page) ! 1)
        = displayed example_button"
    by (simp add: s oldb)
  from w2 w0 w1 show ?thesis by simp
qed

section \<open>Properties of the like scripts: clicks and responses in time\<close>

lemma closest_SomeD:
  "closest cls target pg = Some i \<Longrightarrow> target = Some i \<and> i < length (buttons pg) \<and> cls \<in> classList (buttons pg ! i)"
  by (auto simp: closest_def split: option.splits if_splits)

lemma on_click_000_None: "on_click_000 target pg = (pg', None) \<Longrightarrow> pg' = pg"
  by (auto simp: on_click_000_def split: option.splits if_splits)

lemma on_click_000_Some:
  "on_click_000 target pg = (pg', Some p) \<Longrightarrow>
   target = Some (p_btn p) \<and> p_btn p < length (buttons pg)
   \<and> dataset_loading (buttons pg ! p_btn p) \<noteq> Some ''1''
   \<and> pg' = update_btn (p_btn p) (\<lambda>btn. btn\<lparr>dataset_loading := Some ''1'', disabled := True\<rparr>) pg"
  by (auto simp: on_click_000_def split: option.splits if_splits dest: closest_SomeD)

lemma toggleLike_None: "toggleLike i pg = (pg', None) \<Longrightarrow> pg' = pg"
  by (auto simp: toggleLike_def split: option.splits if_splits)

lemma toggleLike_Some:
  "toggleLike i pg = (pg', Some p) \<Longrightarrow>
   p_btn p = i \<and> dataset_loading (buttons pg ! i) \<noteq> Some ''1''
   \<and> pg' = update_btn i (\<lambda>btn. btn\<lparr>dataset_loading := Some ''1'', disabled := True,
                                    classList := insert ''is-loading'' (classList btn)\<rparr>) pg"
  by (auto simp: toggleLike_def split: option.splits if_splits)

lemma handlePostLike_None: "handlePostLike i pg = (pg', None) \<Longrightarrow> pg' = pg"
  by (auto simp: handlePostLike_def split: option.splits if_splits)

lemma handleCommentLike_None: "handleCommentLike i pg = (pg', None) \<Longrightarrow> pg' = pg"
  by (auto simp: handleCommentLike_def split: option.splits if_splits)

lemma listener_None: "listener v e pg = (pg', None) \<Longrightarrow> pg' = pg"
  by (cases v; cases e)
     (auto simp: listener_def on_click_001_def on_click_002_def on_submit_002_def
           split: option.splits
           dest: on_click_000_None toggleLike_None handlePostLike_None handleCommentLike_None)

lemma mark_fun:
  "mark Part_000 = (\<lambda>btn. btn\<lparr>dataset_loading := Some ''1'', disabled := True\<rparr>)"
  "mark Part_001 = (\<lambda>btn. btn\<lparr>classList := insert ''is-loading'' (classList btn)\<rparr>)"
  "mark Part_002 = (\<lambda>btn. btn\<lparr>dataset_loading := Some ''1'', disabled := True,
                                 classList := insert ''is-loading'' (classList btn)\<rparr>)"
  by (rule ext, simp add: mark_def)+

lemma listener_Some:
  assumes "listener v e pg = (pg', Some p)"
  shows "p_btn p < length (buttons pg) \<and> \<not> in_flight v (buttons pg ! p_btn p)
         \<and> pg' = update_btn (p_btn p) (mark v) pg
         \<and> (e = Click (Some (p_btn p)) \<or> e = Submit (Some (p_btn p)))"
proof (cases v)
  case Part_000
  with assms obtain t where e: "e = Click t" and c: "on_click_000 t pg = (pg', Some p)"
    by (cases e) (auto simp: listener_def)
  from on_click_000_Some [OF c] e Part_000 show ?thesis
    by (auto simp: in_flight_def mark_fun)
next
  case Part_001
  with assms obtain t where e: "e = Click t" and c: "on_click_001 t pg = (pg', Some p)"
    by (cases e) (auto simp: listener_def)
  from c consider i where "closest ''js-like'' t pg = Some i" "handlePostLike i pg = (pg', Some p)"
    | i where "closest ''js-comment-like'' t pg = Some i" "handleCommentLike i pg = (pg', Some p)"
    by (auto simp: on_click_001_def split: option.splits)
  then show ?thesis
  proof cases
    case 1
    from closest_SomeD [OF 1(1)] handlePostLike_issued [OF 1(2)] e Part_001 show ?thesis
      by (auto simp: in_flight_def mark_fun)
  next
    case 2
    from closest_SomeD [OF 2(1)] handleCommentLike_issued [OF 2(2)] e Part_001 show ?thesis
      by (auto simp: in_flight_def mark_fun)
  qed
next
  case Part_002
  with assms obtain t where e: "e = Click t \<or> e = Submit t"
    and c: "closest ''js-like'' t pg \<noteq> None" "toggleLike (the (closest ''js-like'' t pg)) pg = (pg', Some p)"
    by (cases e) (auto simp: listener_def on_click_002_def on_submit_002_def split: option.splits)
  from c(1) obtain i where i: "closest ''js-like'' t pg = Some i" by auto
  from closest_SomeD [OF i] toggleLike_Some [of i pg pg' p] c(2) i e Part_002 show ?thesis
    by (auto simp: in_flight_def mark_fun)
qed

lemma in_flight_mark [simp]: "in_flight v (mark v btn)"
  by (cases v) (simp_all add: in_flight_def mark_def)

lemma length_flags [simp]: "length (flags v pg) = length (buttons pg)"
  by (simp add: flags_def)

lemma flags_update_btn:
  "flags v (update_btn i f pg) = (flags v pg)[i := in_flight v (f (buttons pg ! i))]"
  by (simp add: flags_def update_btn_def map_update)

lemma flags_alert [simp]: "flags v (alert m pg) = flags v pg"
  by (simp add: flags_def)

lemma flags_listener:
  "listener v e pg = (pg', Some p) \<Longrightarrow> flags v pg' = (flags v pg)[p_btn p := True]"
  by (drule listener_Some) (simp add: flags_update_btn)

lemma in_flight_reflect [simp]:
  "in_flight v (reflect_000 a b btn) = in_flight v btn"
  "in_flight v (reflect_002 a b btn) = in_flight v btn"
  "in_flight v (setLikeBtnState a b btn) = in_flight v btn"
  by (cases v; auto simp: in_flight_def reflect_000_def reflect_002_def setLikeBtnState_def
        classList_toggle_def)+

lemma flags_same:
  assumes "\<And>b. in_flight v (f b) = in_flight v b"
  shows "flags v (update_btn i f pg) = flags v pg"
  unfolding flags_def by (rule map_update_btn) (rule assms)

lemma flags_try_000: "flags v (snd (try_000 p r pg)) = flags v pg"
  by (auto simp: try_000_def flags_same split: fetch_result.splits body.splits)

lemma flags_updateButtons: "flags v (snd (updateButtons i a b pg)) = flags v pg"
  by (auto simp: updateButtons_def flags_def)

lemma flags_try_002: "flags v (snd (try_002 p r pg)) = flags v pg"
  by (auto simp: try_002_def flags_updateButtons split: fetch_result.splits body.splits)

lemma flags_href [simp]: "flags v (pg\<lparr>href := h\<rparr>) = flags v pg"
  by (simp add: flags_def)

lemma flags_uncaught [simp]: "flags v (pg\<lparr>uncaught := u\<rparr>) = flags v pg"
  by (simp add: flags_def)

lemma flags_try_001: "flags v (snd (try_001 p r pg)) = flags v pg"
  by (auto simp: try_001_def flags_same split: sum.splits option.splits)

lemma length_try [simp]:
  "length (buttons (snd (try_000 p r pg))) = length (buttons pg)"
  "length (buttons (snd (try_001 p r pg))) = length (buttons pg)"
  "length (buttons (snd (try_002 p r pg))) = length (buttons pg)"
  using length_flags [of v "snd (try_000 p r pg)"] length_flags [of v "snd (try_001 p r pg)"]
    length_flags [of v "snd (try_002 p r pg)"]
  unfolding flags_try_000 flags_try_001 flags_try_002 by simp_all

lemma flags_resume:
  "flags v (resume v p r pg) = (flags v pg)[p_btn p := False]"
proof (cases v)
  case Part_000
  obtain th pg1 where t: "try_000 p r pg = (th, pg1)" by (cases "try_000 p r pg")
  with flags_try_000 [of v p r pg] have "flags v pg1 = flags v pg" by simp
  with t Part_000 show ?thesis
    by (cases th) (simp_all add: resume_def resume_000_def flags_update_btn in_flight_def)
next
  case Part_001
  obtain th pg1 where t: "try_001 p r pg = (th, pg1)" by (cases "try_001 p r pg")
  with flags_try_001 [of v p r pg] have "flags v pg1 = flags v pg" by simp
  with t Part_001 show ?thesis
    by (cases th) (simp_all add: resume_def handlePostLike_resume_def flags_update_btn in_flight_def)
next
  case Part_002
  obtain th pg1 where t: "try_002 p r pg = (th, pg1)" by (cases "try_002 p r pg")
  with flags_try_002 [of v p r pg] have "flags v pg1 = flags v pg" by simp
  with t Part_002 show ?thesis
    by (cases th) (simp_all add: resume_def toggleLike_resume_def flags_update_btn in_flight_def)
qed

lemma remove_nth_image:
  assumes "distinct (map f xs)" "k < length xs"
  shows "f ` set (take k xs @ drop (Suc k) xs) = f ` set xs - {f (xs ! k)}"
    and "distinct (map f (take k xs @ drop (Suc k) xs))"
proof -
  from assms(2) have xs: "xs = take k xs @ xs ! k # drop (Suc k) xs"
    by (rule id_take_nth_drop)
  from assms(1) have d: "distinct (map f (take k xs @ xs ! k # drop (Suc k) xs))"
    using xs by simp
  then show "distinct (map f (take k xs @ drop (Suc k) xs))" by auto
  from d have "f (xs ! k) \<notin> f ` set (take k xs @ drop (Suc k) xs)" by auto
  moreover have "f ` set xs = insert (f (xs ! k)) (f ` set (take k xs @ drop (Suc k) xs))"
    by (subst xs) auto
  ultimately show "f ` set (take k xs @ drop (Suc k) xs) = f ` set xs - {f (xs ! k)}" by auto
qed

lemma length_resume [simp]: "length (buttons (resume v p r pg)) = length (buttons pg)"
  using length_flags [of v "resume v p r pg"] unfolding flags_resume by simp

lemma step_flag_invariant:
  assumes inv: "flag_invariant v w"
  shows "flag_invariant v (step v e w)"
proof (cases e)
  case (Settle k r)
  show ?thesis
  proof (cases "k < length (outstanding w)")
    case False
    with Settle inv show ?thesis by (simp add: step_def)
  next
    case True
    let ?p = "outstanding w ! k"
    let ?rest = "take k (outstanding w) @ drop (Suc k) (outstanding w)"
    from inv have d: "distinct (map p_btn (outstanding w))" by (simp add: flag_invariant_def)
    note rm = remove_nth_image [OF d True]
    have sub: "set ?rest \<subseteq> set (outstanding w)"
      by (auto dest: in_set_takeD in_set_dropD)
    from Settle True have st: "step v e w = w\<lparr>page_of := resume v ?p r (page_of w), outstanding := ?rest\<rparr>"
      by (simp add: step_def)
    show ?thesis
      unfolding st flag_invariant_def
    proof (intro conjI ballI allI impI)
      show "distinct (map p_btn (outstanding (w\<lparr>page_of := resume v ?p r (page_of w), outstanding := ?rest\<rparr>)))"
        using rm(2) by simp
    next
      fix p assume "p \<in> set (outstanding (w\<lparr>page_of := resume v ?p r (page_of w), outstanding := ?rest\<rparr>))"
      with sub have "p \<in> set (outstanding w)" by auto
      with inv show "p_btn p < length (buttons (page_of (w\<lparr>page_of := resume v ?p r (page_of w), outstanding := ?rest\<rparr>)))"
        by (simp add: flag_invariant_def)
    next
      fix i assume "i < length (buttons (page_of (w\<lparr>page_of := resume v ?p r (page_of w), outstanding := ?rest\<rparr>)))"
      then have i: "i < length (buttons (page_of w))" by simp
      with inv have old: "flags v (page_of w) ! i \<longleftrightarrow> i \<in> p_btn ` set (outstanding w)"
        by (simp add: flag_invariant_def)
      from inv True have pl: "p_btn ?p < length (flags v (page_of w))"
        by (simp add: flag_invariant_def)
      from i old pl show "flags v (page_of (w\<lparr>page_of := resume v ?p r (page_of w), outstanding := ?rest\<rparr>)) ! i
              \<longleftrightarrow> i \<in> p_btn ` set (outstanding (w\<lparr>page_of := resume v ?p r (page_of w), outstanding := ?rest\<rparr>))"
        by (auto simp add: flags_resume rm(1) nth_list_update simp del: set_append)
    qed
  qed
next
  case (Click t)
  show ?thesis
  proof (cases "listener v e (page_of w)")
    case (Pair pg po)
    show ?thesis
    proof (cases po)
      case None
      with Pair listener_None [of v e "page_of w" pg] Click inv show ?thesis
        by (simp add: step_def)
    next
      case (Some p)
      with Pair have l: "listener v e (page_of w) = (pg, Some p)" by simp
      from listener_Some [OF l] have lt: "p_btn p < length (buttons (page_of w))"
        and nf: "\<not> in_flight v (buttons (page_of w) ! p_btn p)" by simp_all
      from nf lt have nf': "\<not> flags v (page_of w) ! p_btn p" by (simp add: flags_def)
      with inv lt have notin: "p_btn p \<notin> p_btn ` set (outstanding w)"
        by (simp add: flag_invariant_def)
      from flags_listener [OF l] have fl: "flags v pg = (flags v (page_of w))[p_btn p := True]" .
      then have len: "length (buttons pg) = length (buttons (page_of w))"
        using length_flags [of v pg] by simp
      from Click l have st: "step v e w = w\<lparr>page_of := pg, outstanding := outstanding w @ [p],
                  requests := requests w @ [p_url p]\<rparr>"
        by (simp add: step_def)
      from inv notin lt show ?thesis
        unfolding st flag_invariant_def
        by (auto simp: fl len nth_list_update)
    qed
  qed
next
  case (Submit t)
  show ?thesis
  proof (cases "listener v e (page_of w)")
    case (Pair pg po)
    show ?thesis
    proof (cases po)
      case None
      with Pair listener_None [of v e "page_of w" pg] Submit inv show ?thesis
        by (simp add: step_def)
    next
      case (Some p)
      with Pair have l: "listener v e (page_of w) = (pg, Some p)" by simp
      from listener_Some [OF l] have lt: "p_btn p < length (buttons (page_of w))"
        and nf: "\<not> in_flight v (buttons (page_of w) ! p_btn p)" by simp_all
      from nf lt have nf': "\<not> flags v (page_of w) ! p_btn p" by (simp add: flags_def)
      with inv lt have notin: "p_btn p \<notin> p_btn ` set (outstanding w)"
        by (simp add: flag_invariant_def)
      from flags_listener [OF l] have fl: "flags v pg = (flags v (page_of w))[p_btn p := True]" .
      then have len: "length (buttons pg) = length (buttons (page_of w))"
        using length_flags [of v pg] by simp
      from Submit l have st: "step v e w = w\<lparr>page_of := pg, outstanding := outstanding w @ [p],
                  requests := requests w @ [p_url p]\<rparr>"
        by (simp add: step_def)
      from inv notin lt show ?thesis
        unfolding st flag_invariant_def
        by (auto simp: fl len nth_list_update)
    qed
  qed
qed

lemma run_flag_invariant: "flag_invariant v w \<Longrightarrow> flag_invariant v (run v es w)"
  by (induction es arbitrary: w) (simp_all add: step_flag_invariant)

lemma listener_in_flight:
  assumes "in_flight v (buttons pg ! i)"
  shows "listener v (Click (Some i)) pg = (pg, None)" "listener v (Submit (Some i)) pg = (pg, None)"
proof -
  have "listener v e pg = (pg, None)" if e: "e = Click (Some i) \<or> e = Submit (Some i)" for e
  proof (cases "listener v e pg")
    case (Pair pg' po)
    show ?thesis
    proof (cases po)
      case None
      with Pair listener_None [of v e pg pg'] show ?thesis by simp
    next
      case (Some p)
      with Pair have "listener v e pg = (pg', Some p)" by simp
      from listener_Some [OF this] e assms show ?thesis by auto
    qed
  qed
  then show "listener v (Click (Some i)) pg = (pg, None)"
    "listener v (Submit (Some i)) pg = (pg, None)" by simp_all
qed

lemma step_in_flight:
  assumes "in_flight v (buttons (page_of w) ! i)"
  shows "step v (Click (Some i)) w = w" "step v (Submit (Some i)) w = w"
  using listener_in_flight [OF assms] by (simp_all add: step_def)

lemma run_in_flight:
  "in_flight v (buttons (page_of w) ! i) \<Longrightarrow> run v (replicate n (Click (Some i))) w = w"
  by (induction n) (simp_all add: step_in_flight)

lemma step_issue:
  assumes "listener v (Click (Some i)) (page_of w) = (pg, Some p)"
  shows "step v (Click (Some i)) w =
           w\<lparr>page_of := pg, outstanding := outstanding w @ [p], requests := requests w @ [p_url p]\<rparr>"
    and "in_flight v (buttons pg ! i)" and "p_btn p = i"
proof -
  from assms show "step v (Click (Some i)) w =
           w\<lparr>page_of := pg, outstanding := outstanding w @ [p], requests := requests w @ [p_url p]\<rparr>"
    by (simp add: step_def)
  from listener_Some [OF assms] show i: "p_btn p = i" by simp
  from listener_Some [OF assms] i show "in_flight v (buttons pg ! i)"
    by (simp add: nth_update_btn)
qed

text \<open>
  C5: a click (or, in part_002, a submit) on an element whose in-flight flag is set changes
  nothing: no request is sent and neither the page nor the outstanding requests change. So
  of any number of clicks on one button in a row, the first of which issues a request,
  only that first one issues a request: the requests grow by exactly one URL.
\<close>

theorem repeated_clicks_single_request:
  "(in_flight v (buttons (page_of w) ! i) \<longrightarrow>
      step v (Click (Some i)) w = w \<and> step v (Submit (Some i)) w = w)
   \<and> (listener v (Click (Some i)) (page_of w) = (pg, Some p) \<longrightarrow>
        in_flight v (buttons (page_of (step v (Click (Some i)) w)) ! i)
        \<and> run v (replicate (Suc n) (Click (Some i))) w = step v (Click (Some i)) w
        \<and> requests (run v (replicate (Suc n) (Click (Some i))) w) = requests w @ [p_url p]
        \<and> outstanding (run v (replicate (Suc n) (Click (Some i))) w) = outstanding w @ [p])"
proof (intro conjI impI)
  assume "in_flight v (buttons (page_of w) ! i)"
  then show "step v (Click (Some i)) w = w" "step v (Submit (Some i)) w = w"
    by (rule step_in_flight)+
next
  assume l: "listener v (Click (Some i)) (page_of w) = (pg, Some p)"
  note s = step_issue [OF l]
  from s(1,2) show f: "in_flight v (buttons (page_of (step v (Click (Some i)) w)) ! i)" by simp
  from run_in_flight [OF f, of n]
  show r: "run v (replicate (Suc n) (Click (Some i))) w = step v (Click (Some i)) w" by simp
  from s(1) show "requests (run v (replicate (Suc n) (Click (Some i))) w) = requests w @ [p_url p]"
    unfolding r by simp
  from s(1) show "outstanding (run v (replicate (Suc n) (Click (Some i))) w) = outstanding w @ [p]"
    unfolding r by simp
qed

lemma example_click:
  "listener Part_000 (Click (Some 0)) (page_of example_world) =
     (update_btn 0 (mark Part_000) example_page, Some example_pending)"
  "listener Part_002 (Click (Some 0)) (page_of example_world) =
     (update_btn 0 (mark Part_002) example_page, Some example_pending)"
  by (simp_all add: listener_def on_click_000_def on_click_002_def toggleLike_def closest_def
        example_world_def example_page_def example_button_def example_pending_def mark_fun)

theorem repeated_clicks_single_request_witness:
  "requests (run Part_000 (replicate 3 (Click (Some 0))) example_world) = [''/api/like/42'']
   \<and> requests (run Part_002 (replicate 3 (Click (Some 0))) example_world) = [''/api/like/42'']
   \<and> step Part_002 (Click (Some 0)) (step Part_002 (Click (Some 0)) example_world)
        = step Part_002 (Click (Some 0)) example_world"
proof -
  note a = repeated_clicks_single_request
    [of Part_000 example_world 0 "update_btn 0 (mark Part_000) example_page" example_pending 2]
  note b = repeated_clicks_single_request
    [of Part_002 example_world 0 "update_btn 0 (mark Part_002) example_page" example_pending 2]
  have n: "replicate 3 (Click (Some 0)) = replicate (Suc 2) (Click (Some 0))"
    by (simp add: numeral_3_eq_3)
  from a example_click(1)
  have ra: "requests (run Part_000 (replicate (Suc 2) (Click (Some 0))) example_world)
              = requests example_world @ [p_url example_pending]"
    by blast
  from b example_click(2)
  have rb: "requests (run Part_002 (replicate (Suc 2) (Click (Some 0))) example_world)
              = requests example_world @ [p_url example_pending]"
    and fb: "in_flight Part_002 (buttons (page_of (step Part_002 (Click (Some 0)) example_world)) ! 0)"
    by blast+
  from repeated_clicks_single_request
    [of Part_002 "step Part_002 (Click (Some 0)) example_world" 0] fb
  have sb: "step Part_002 (Click (Some 0)) (step Part_002 (Click (Some 0)) example_world)
        = step Part_002 (Click (Some 0)) example_world"
    by blast
  from ra rb sb show ?thesis
    unfolding n by (simp add: example_world_def example_pending_def)
qed

lemma resume_000_cleared:
  assumes "p_btn p < length (buttons pg)"
  shows "dataset_loading (buttons (resume_000 p r pg) ! p_btn p) = Some ''0''
         \<and> \<not> disabled (buttons (resume_000 p r pg) ! p_btn p)"
proof -
  obtain th pg1 where t: "try_000 p r pg = (th, pg1)" by (cases "try_000 p r pg")
  with length_try(1) [of p r pg] have "length (buttons pg1) = length (buttons pg)" by simp
  with t assms show ?thesis
    by (cases th) (simp_all add: resume_000_def nth_update_btn)
qed

lemma toggleLike_resume_cleared:
  assumes "p_btn p < length (buttons pg)"
  shows "dataset_loading (buttons (toggleLike_resume p r pg) ! p_btn p) = Some ''0''
         \<and> \<not> disabled (buttons (toggleLike_resume p r pg) ! p_btn p)
         \<and> ''is-loading'' \<notin> classList (buttons (toggleLike_resume p r pg) ! p_btn p)"
proof -
  obtain th pg1 where t: "try_002 p r pg = (th, pg1)" by (cases "try_002 p r pg")
  with length_try(3) [of p r pg] have "length (buttons pg1) = length (buttons pg)" by simp
  with t assms show ?thesis
    by (cases th) (simp_all add: toggleLike_resume_def nth_update_btn)
qed

lemma handlePostLike_resume_cleared:
  assumes "p_btn p < length (buttons pg)"
  shows "''is-loading'' \<notin> classList (buttons (handlePostLike_resume p r pg) ! p_btn p)"
proof -
  obtain th pg1 where t: "try_001 p r pg = (th, pg1)" by (cases "try_001 p r pg")
  with length_try(2) [of p r pg] have "length (buttons pg1) = length (buttons pg)" by simp
  with t assms show ?thesis
    by (cases th) (simp_all add: handlePostLike_resume_def nth_update_btn)
qed

lemma initial_flag_invariant:
  assumes "outstanding w = []"
    and "\<forall>i < length (buttons (page_of w)). \<not> in_flight v (buttons (page_of w) ! i)"
  shows "flag_invariant v w"
  using assms by (simp add: flag_invariant_def flags_def)

text \<open>
  C6: a listener that issues a request has set the in-flight flag of its element, which
  was not set, together with the disabled state (part_000, part_002) and the loading class
  (part_001, part_002), in the state in which the request goes out; when the request
  settles, whatever the outcome (a success, a handled failure, a rejected \<^verbatim>\<open>fetch\<close>, a body
  that does not parse), the rest of the handler leaves the flag, the disabled state and the
  loading class cleared. Over any sequence of clicks, submits and settling requests, from a
  page without outstanding requests and without flags, an element's flag is set exactly
  when a request of that element is outstanding.
\<close>

theorem in_flight_flag_lifecycle:
  "(listener v e pg = (pg', Some p) \<longrightarrow>
      \<not> in_flight v (buttons pg ! p_btn p)
      \<and> in_flight v (buttons pg' ! p_btn p)
      \<and> (v \<noteq> Part_001 \<longrightarrow> disabled (buttons pg' ! p_btn p))
      \<and> (v \<noteq> Part_000 \<longrightarrow> ''is-loading'' \<in> classList (buttons pg' ! p_btn p)))
   \<and> (p_btn q < length (buttons pg) \<longrightarrow>
      \<not> in_flight v (buttons (resume v q r pg) ! p_btn q)
      \<and> (v \<noteq> Part_001 \<longrightarrow> \<not> disabled (buttons (resume v q r pg) ! p_btn q))
      \<and> (v \<noteq> Part_000 \<longrightarrow> ''is-loading'' \<notin> classList (buttons (resume v q r pg) ! p_btn q)))
   \<and> (outstanding w = []
       \<and> (\<forall>i < length (buttons (page_of w)). \<not> in_flight v (buttons (page_of w) ! i)) \<longrightarrow>
      distinct (map p_btn (outstanding (run v es w)))
      \<and> (\<forall>i < length (buttons (page_of (run v es w))).
            in_flight v (buttons (page_of (run v es w)) ! i)
              \<longleftrightarrow> (\<exists>p \<in> set (outstanding (run v es w)). p_btn p = i)))"
proof (intro conjI impI)
  assume l: "listener v e pg = (pg', Some p)"
  note s = listener_Some [OF l]
  from s show "\<not> in_flight v (buttons pg ! p_btn p)" by simp
  from s have nth: "buttons pg' ! p_btn p = mark v (buttons pg ! p_btn p)"
    by (simp add: nth_update_btn)
  show "in_flight v (buttons pg' ! p_btn p)" unfolding nth by simp
  { assume "v \<noteq> Part_001"
    then show "disabled (buttons pg' ! p_btn p)" unfolding nth by (cases v) (simp_all add: mark_def) }
  { assume "v \<noteq> Part_000"
    then show "''is-loading'' \<in> classList (buttons pg' ! p_btn p)"
      unfolding nth by (cases v) (simp_all add: mark_def) }
next
  assume q: "p_btn q < length (buttons pg)"
  from resume_000_cleared [OF q, of r] toggleLike_resume_cleared [OF q, of r]
    handlePostLike_resume_cleared [OF q, of r]
  show "\<not> in_flight v (buttons (resume v q r pg) ! p_btn q)"
    by (cases v) (simp_all add: resume_def in_flight_def)
  { assume "v \<noteq> Part_001"
    with resume_000_cleared [OF q, of r] toggleLike_resume_cleared [OF q, of r]
    show "\<not> disabled (buttons (resume v q r pg) ! p_btn q)"
      by (cases v) (simp_all add: resume_def) }
  { assume "v \<noteq> Part_000"
    with handlePostLike_resume_cleared [OF q, of r] toggleLike_resume_cleared [OF q, of r]
    show "''is-loading'' \<notin> classList (buttons (resume v q r pg) ! p_btn q)"
      by (cases v) (simp_all add: resume_def) }
next
  assume "outstanding w = []
       \<and> (\<forall>i < length (buttons (page_of w)). \<not> in_flight v (buttons (page_of w) ! i))"
  then have "flag_invariant v w" by (simp add: initial_flag_invariant)
  then have inv: "flag_invariant v (run v es w)" by (rule run_flag_invariant)
  then show "distinct (map p_btn (outstanding (run v es w)))" by (simp add: flag_invariant_def)
  from inv show "\<forall>i < length (buttons (page_of (run v es w))).
            in_flight v (buttons (page_of (run v es w)) ! i)
              \<longleftrightarrow> (\<exists>p \<in> set (outstanding (run v es w)). p_btn p = i)"
    by (auto simp: flag_invariant_def flags_def)
qed

theorem in_flight_flag_lifecycle_witness:
  "in_flight Part_002 (buttons (page_of (run Part_002 [Click (Some 0)] example_world)) ! 0)
   \<and> \<not> in_flight Part_002 (buttons (page_of (run Part_002 [Click (Some 0)] example_world)) ! 1)
   \<and> \<not> in_flight Part_002
         (buttons (page_of (run Part_002 [Click (Some 0), Settle 0 FetchRejected] example_world)) ! 0)
   \<and> \<not> disabled (buttons (resume Part_000 example_pending FetchRejected example_page) ! 0)"
proof -
  have init: "outstanding example_world = []
       \<and> (\<forall>i < length (buttons (page_of example_world)).
             \<not> in_flight Part_002 (buttons (page_of example_world) ! i))"
    by (simp add: example_world_def example_page_def example_button_def in_flight_def
          less_Suc_eq numeral_3_eq_3)
  have r1: "run Part_002 [Click (Some 0)] example_world =
              \<lparr>page_of = update_btn 0 (mark Part_002) example_page,
               outstanding = [example_pending], requests = [p_url example_pending]\<rparr>"
    using example_click(2) by (simp add: step_def example_world_def)
  have r2: "outstanding (run Part_002 [Click (Some 0), Settle 0 FetchRejected] example_world) = []"
    using r1 by (simp add: step_def)
  have len: "length (buttons example_page) = 3" by (simp add: example_page_def)
  have len2: "length (buttons (page_of (run Part_002 [Click (Some 0), Settle 0 FetchRejected]
                example_world))) = 3"
    using r1 by (simp add: step_def len)
  note t1 = in_flight_flag_lifecycle [of Part_002 _ _ _ _ _ _ example_world "[Click (Some 0)]"]
  from t1 init have q1: "\<forall>i < length (buttons (page_of (run Part_002 [Click (Some 0)] example_world))).
            in_flight Part_002 (buttons (page_of (run Part_002 [Click (Some 0)] example_world)) ! i)
              \<longleftrightarrow> (\<exists>p \<in> set (outstanding (run Part_002 [Click (Some 0)] example_world)). p_btn p = i)"
    by blast
  from q1 [rule_format, of 0]
  have w1: "in_flight Part_002 (buttons (page_of (run Part_002 [Click (Some 0)] example_world)) ! 0)"
    unfolding r1 by (simp add: len example_pending_def)
  from q1 [rule_format, of 1]
  have w2: "\<not> in_flight Part_002 (buttons (page_of (run Part_002 [Click (Some 0)] example_world)) ! 1)"
    unfolding r1 by (simp add: len example_pending_def)
  note t2 = in_flight_flag_lifecycle [of Part_002 _ _ _ _ _ _ example_world
      "[Click (Some 0), Settle 0 FetchRejected]"]
  from t2 init have q2: "\<forall>i < length (buttons (page_of (run Part_002 [Click (Some 0), Settle 0 FetchRejected] example_world))).
            in_flight Part_002 (buttons (page_of (run Part_002 [Click (Some 0), Settle 0 FetchRejected] example_world)) ! i)
              \<longleftrightarrow> (\<exists>p \<in> set (outstanding (run Part_002 [Click (Some 0), Settle 0 FetchRejected] example_world)). p_btn p = i)"
    by blast
  from len2 have pos: "0 < length (buttons (page_of (run Part_002 [Click (Some 0), Settle 0 FetchRejected]
                example_world)))" by simp
  from q2 [rule_format, OF pos] r2
  have w3: "\<not> in_flight Part_002
         (buttons (page_of (run Part_002 [Click (Some 0), Settle 0 FetchRejected] example_world)) ! 0)"
    by simp
  have "p_btn example_pending < length (buttons example_page)"
    by (simp add: len example_pending_def)
  with in_flight_flag_lifecycle [where v = Part_000 and q = example_pending and pg = example_page
      and r = FetchRejected]
  have "\<not> disabled (buttons (resume Part_000 example_pending FetchRejected example_page)
                       ! p_btn example_pending)"
    by blast
  then have w4: "\<not> disabled (buttons (resume Part_000 example_pending FetchRejected example_page) ! 0)"
    by (simp add: example_pending_def)
  from w1 w2 w3 w4 show ?thesis by blast
qed

section \<open>Properties of the dispatch of a click\<close>

lemma walk_stopped: "stop_propagation s \<Longrightarrow> walk inside t c ks regs s = s"
  by (cases ks) simp_all

lemma call_flags:
  "stop_propagation s \<Longrightarrow> stop_propagation (call inside l s)"
  "default_prevented s \<Longrightarrow> default_prevented (call inside l s)"
  by (auto simp: call_def script_effect_def split: handler.splits variant.splits)

lemma call_script:
  "handler_of l = Script v \<Longrightarrow>
   stop_propagation (call True l s) \<and> default_prevented (call True l s)"
  by (auto simp: call_def script_effect_def split: variant.splits)

lemma call_immediate:
  "stop_immediate (call inside l s) \<Longrightarrow> \<not> stop_immediate s \<Longrightarrow>
   stop_propagation (call inside l s) \<and> default_prevented (call inside l s)"
  by (auto simp: call_def script_effect_def split: handler.splits variant.splits if_splits)

lemma invoked_call: "invoked (call inside l s) = invoked s @ [l]"
  by (auto simp: call_def script_effect_def split: handler.splits variant.splits)

lemma invoke_all_flags:
  "stop_propagation s \<Longrightarrow> default_prevented s \<Longrightarrow>
   stop_propagation (invoke_all inside ls s) \<and> default_prevented (invoke_all inside ls s)"
  by (induction ls arbitrary: s) (simp_all add: call_flags)

lemma invoke_all_script:
  assumes "l \<in> set ls" "handler_of l = Script v"
    and "stop_immediate s \<longrightarrow> stop_propagation s \<and> default_prevented s"
  shows "stop_propagation (invoke_all True ls s) \<and> default_prevented (invoke_all True ls s)"
  using assms
proof (induction ls arbitrary: s)
  case Nil
  then show ?case by simp
next
  case (Cons x xs)
  show ?case
  proof (cases "stop_immediate s")
    case True
    with Cons.prems(3) show ?thesis by simp
  next
    case False
    show ?thesis
    proof (cases "x = l")
      case True
      with Cons.prems(2) have "stop_propagation (call True x s) \<and> default_prevented (call True x s)"
        by (simp add: call_script)
      with False show ?thesis by (simp add: invoke_all_flags)
    next
      case ne: False
      with Cons.prems(1) have "l \<in> set xs" by simp
      moreover have "stop_immediate (call True x s) \<longrightarrow>
          stop_propagation (call True x s) \<and> default_prevented (call True x s)"
        using call_immediate [of True x s] False by blast
      ultimately have "stop_propagation (invoke_all True xs (call True x s))
          \<and> default_prevented (invoke_all True xs (call True x s))"
        using Cons.IH Cons.prems(2) by blast
      with False show ?thesis by simp
    qed
  qed
qed

lemma invoked_invoke_all:
  "set (invoked (invoke_all inside ls s)) \<subseteq> set (invoked s) \<union> set ls"
proof (induction ls arbitrary: s)
  case Nil
  then show ?case by simp
next
  case (Cons x xs)
  from Cons.IH [of "call inside x s"] show ?case
    by (auto simp: invoked_call)
qed

text \<open>
  With the click listener of part_000 or of part_002 among the registered listeners, a
  click inside a like-triggering element is default-prevented and reaches no listener below
  the document, in neither phase: the capturing listeners of the document are the only ones
  that run.
\<close>

lemma capturing_listener_first:
  assumes "v = Part_000 \<or> v = Part_002" and "set (registrations v) \<subseteq> set regs"
  shows "default_prevented (dispatch True ClickE n regs)
         \<and> (\<forall>l \<in> set (invoked (dispatch True ClickE n regs)). on_node l = 0 \<and> use_capture l)"
proof -
  let ?s0 = "\<lparr>stop_propagation = False, stop_immediate = False, default_prevented = False,
              invoked = []\<rparr>"
  let ?l = "\<lparr>on_node = 0, on_type = ClickE, use_capture = True, handler_of = Script v\<rparr>"
  let ?s1 = "invoke_all True (at_node ClickE True 0 regs) ?s0"
  from assms have "?l \<in> set regs" by (auto simp: registrations_def)
  then have "?l \<in> set (at_node ClickE True 0 regs)" by (simp add: at_node_def)
  from invoke_all_script [OF this, of v ?s0]
  have f: "stop_propagation ?s1 \<and> default_prevented ?s1" by simp
  have "[0..<Suc n] = 0 # [1..<Suc n]" by (simp add: upt_conv_Cons)
  then have "walk True ClickE True [0..<Suc n] regs ?s0 = walk True ClickE True [1..<Suc n] regs ?s1"
    by simp
  with f have "dispatch True ClickE n regs = ?s1"
    by (simp add: dispatch_def walk_stopped)
  moreover from invoked_invoke_all [of True "at_node ClickE True 0 regs" ?s0]
  have "\<forall>l \<in> set (invoked ?s1). on_node l = 0 \<and> use_capture l"
    by (auto simp: at_node_def)
  ultimately show ?thesis using f by simp
qed

text \<open>
  C2 on the posts and comments script: its click listener is registered without the
  capture argument. On a page where a card with an \<^verbatim>\<open>onclick\<close> handler holds a like button,
  a click on the button runs the card's handler first and the script's listener after it;
  the default action is prevented all the same.
\<close>

theorem bubbling_listener_late:
  "map use_capture (registrations Part_001) = [False]
   \<and> map handler_of (invoked (dispatch True ClickE 2 (card_onclick # registrations Part_001)))
        = [PageHandler 0, Script Part_001]
   \<and> default_prevented (dispatch True ClickE 2 (card_onclick # registrations Part_001))
   \<and> map handler_of (invoked (dispatch True ClickE 2 (card_onclick # registrations Part_000)))
        = [Script Part_000]
   \<and> map handler_of (invoked (dispatch True ClickE 2 (card_onclick # registrations Part_002)))
        = [Script Part_002]"
  by (simp add: registrations_def dispatch_def at_node_def card_onclick_def call_def
        script_effect_def upt_conv_Cons numeral_2_eq_2)

end
